theory Spec2Isabelle
  imports Main
begin

section \<open>Plugin pipelines of alerta/utils/api.py\<close>

text \<open>
  The module drives five plugin chains: \<open>process_alert\<close> (pre-receive hooks, lifecycle
  resolution, post-receive hooks), \<open>process_action\<close>, \<open>process_note\<close>,
  \<open>process_status\<close> and \<open>process_delete\<close>. Each function returns, besides its
  result or the exception it raises, the list of calls it made to its collaborators
  (plugin hooks, alert model, logger) in the order it made them.
\<close>

subsection \<open>Exceptions\<close>

text \<open>
  An exception value carries the classes it is an instance of (its own class and the
  base classes of that class, \<open>Exception\<close> among them when it derives from it) and
  the text \<open>str(e)\<close>. The class declarations of \<open>alerta.exceptions\<close> are not part
  of the module, so the classes of an exception are data of the exception; an
  \<open>except C\<close> clause matches by \<open>isinstance\<close>. An exception that is not an instance
  of \<open>Exception\<close> (\<open>KeyboardInterrupt\<close>, \<open>SystemExit\<close>) passes an
  \<open>except Exception\<close> clause and leaves the function. What the module itself raises
  (\<open>RuntimeError\<close>, \<open>SyntaxError\<close>, \<open>ApiError\<close>, the interpreter's
  \<open>AttributeError\<close>) is an instance of \<open>Exception\<close>.
\<close>

datatype exc_class =
    Exception | KeyboardInterrupt | SystemExit
  | TypeError | NotImplementedError | RuntimeError | SyntaxError | AttributeError
  | AlertaException | RejectException | HeartbeatReceived | BlackoutPeriod | RateLimit
  | ForwardingLoop | InvalidAction | ApiError
  | UserClass string

record exn =
  classes :: "exc_class list"
  message :: string

definition isinstance :: "exn \<Rightarrow> exc_class \<Rightarrow> bool" where
  "isinstance e c = (c \<in> set (classes e))"

definition isinstance_any :: "exn \<Rightarrow> exc_class list \<Rightarrow> bool" where
  "isinstance_any e cs = list_ex (isinstance e) cs"

definition raise_exn :: "exc_class \<Rightarrow> string \<Rightarrow> exn" where
  "raise_exn c m = \<lparr>classes = [c, Exception], message = m\<rparr>"

subsection \<open>Alerts and Python values\<close>

text \<open>
  Of an \<open>Alert\<close> the module reads \<open>is_suppressed\<close>, \<open>tags\<close> and \<open>attributes\<close>, and
  writes \<open>attributes\<close>; \<open>ident\<close> stands for the rest of the object. The class declares
  neither \<open>__bool__\<close> nor \<open>__len__\<close>, so an alert is always truthy.

  A hook may return any Python object: the module tests what it got with \<open>isinstance\<close>,
  \<open>len\<close>, truthiness and tuple unpacking.
\<close>

record alert =
  ident :: string
  is_suppressed :: bool
  tags :: "string list"
  attributes :: "(string \<times> string) list"

datatype pyval =
    PNone | PBool bool | PInt int | PStr string | PAlert alert | PTuple "pyval list"

fun truthy :: "pyval \<Rightarrow> bool" where
  "truthy PNone = False"
| "truthy (PBool b) = b"
| "truthy (PInt i) = (i \<noteq> 0)"
| "truthy (PStr s) = (s \<noteq> [])"
| "truthy (PAlert a) = True"
| "truthy (PTuple vs) = (vs \<noteq> [])"

fun type_name :: "pyval \<Rightarrow> string" where
  "type_name PNone = ''NoneType''"
| "type_name (PBool b) = ''bool''"
| "type_name (PInt i) = ''int''"
| "type_name (PStr s) = ''str''"
| "type_name (PAlert a) = ''Alert''"
| "type_name (PTuple vs) = ''tuple''"

definition attribute_error :: "pyval \<Rightarrow> string \<Rightarrow> exn" where
  "attribute_error v attr =
     raise_exn AttributeError
       ([CHR 0x27] @ type_name v @ [CHR 0x27] @ '' object has no attribute '' @
        [CHR 0x27] @ attr @ [CHR 0x27])"

text \<open>\<open>alert.is_suppressed\<close>, on whatever the variable \<open>alert\<close> holds.\<close>

fun getattr_is_suppressed :: "pyval \<Rightarrow> exn + bool" where
  "getattr_is_suppressed (PAlert a) = Inr (is_suppressed a)"
| "getattr_is_suppressed v = Inl (attribute_error v ''is_suppressed'')"

text \<open>\<open>isinstance(updated, Alert)\<close>.\<close>

fun is_alert :: "pyval \<Rightarrow> bool" where
  "is_alert (PAlert a) = True"
| "is_alert v = False"

subsection \<open>Plugins, routing, alert model, configuration\<close>

text \<open>
  A plugin is its \<open>name\<close> and its hook methods. A hook call either returns a value or
  raises. \<open>pre_receive\<close>, \<open>post_receive\<close> and \<open>status_change\<close> are called in two
  shapes: with the keyword argument \<open>config\<close> (\<open>Some wanted_config\<close>) and without it
  (\<open>None\<close>); \<open>take_action\<close>, \<open>take_note\<close> and \<open>delete\<close> are only ever called with it.
  The alert a hook is given is a value, and a hook is a function of its arguments: it
  changes the running alert only through what it returns.
\<close>

type_synonym hook_result = "exn + pyval"

record 'c plugin =
  name :: string
  pre_receive :: "pyval \<Rightarrow> 'c option \<Rightarrow> hook_result"
  post_receive :: "pyval \<Rightarrow> 'c option \<Rightarrow> hook_result"
  take_action :: "pyval \<Rightarrow> pyval \<Rightarrow> pyval \<Rightarrow> pyval \<Rightarrow> 'c \<Rightarrow> hook_result"
  take_note :: "pyval \<Rightarrow> pyval \<Rightarrow> 'c \<Rightarrow> hook_result"
  status_change :: "pyval \<Rightarrow> pyval \<Rightarrow> pyval \<Rightarrow> 'c option \<Rightarrow> hook_result"
  delete :: "pyval \<Rightarrow> 'c \<Rightarrow> hook_result"

text \<open>
  The collaborators of the module: \<open>plugins.routing\<close>, the configuration entry
  \<open>PLUGINS_RAISE_ON_ERROR\<close> and the methods of the alert model. Each model method
  takes the alert it is called on first; \<open>delete_alert\<close> is \<open>alert.delete()\<close>.
\<close>

record 'c env =
  routing :: "alert \<Rightarrow> 'c plugin list \<times> 'c"
  raise_on_error :: bool
  is_duplicate :: "alert \<Rightarrow> exn + alert option"
  deduplicate :: "alert \<Rightarrow> alert \<Rightarrow> exn + alert"
  is_correlated :: "alert \<Rightarrow> exn + alert option"
  update :: "alert \<Rightarrow> alert \<Rightarrow> exn + alert"
  create :: "alert \<Rightarrow> exn + alert"
  delete_alert :: "alert \<Rightarrow> exn + bool"
  update_tags :: "alert \<Rightarrow> string list \<Rightarrow> exn + unit"
  update_attributes :: "alert \<Rightarrow> (string \<times> string) list \<Rightarrow> exn + (string \<times> string) list"

subsection \<open>Calls made, loops\<close>

datatype hook = PreReceive | PostReceive | TakeAction | TakeNote | StatusChange | Delete

datatype shape = WithConfig | WithoutConfig

datatype event =
    Invoke string hook shape
  | LogError string
  | IsDuplicate | Deduplicate alert | IsCorrelated | Update alert | Create
  | DeleteAlert
  | UpdateTags "string list"
  | UpdateAttributes "(string \<times> string) list"

text \<open>
  One pass through the body of a \<open>for plugin in wanted_plugins\<close> loop ends by falling
  through to the next plugin, by \<open>break\<close>, or by an exception leaving the function.
\<close>

datatype 's ctl = Next 's | Break 's | Raise exn

fun for_loop :: "('p \<Rightarrow> 's \<Rightarrow> event list \<times> 's ctl) \<Rightarrow> 'p list \<Rightarrow> 's \<Rightarrow> event list \<times> 's ctl" where
  "for_loop body [] s = ([], Next s)"
| "for_loop body (p # ps) s =
     (case body p s of
        (ev, Next s') \<Rightarrow> (case for_loop body ps s' of (ev', r) \<Rightarrow> (ev @ ev', r))
      | (ev, Break s') \<Rightarrow> (ev, Break s')
      | (ev, Raise e) \<Rightarrow> (ev, Raise e))"

fun loop_exit :: "'s ctl \<Rightarrow> exn + 's" where
  "loop_exit (Next s) = Inr s"
| "loop_exit (Break s) = Inr s"
| "loop_exit (Raise e) = Inl e"

definition error_message :: "string \<Rightarrow> 'c plugin \<Rightarrow> exn \<Rightarrow> string" where
  "error_message stage p e =
     ''Error while running '' @ stage @ '' plugin '' @ [CHR 0x27] @ name p @ [CHR 0x27] @
     '': '' @ message e"

text \<open>
  \<open>alert.update_tags(alert.tags); alert.attributes = alert.update_attributes(alert.attributes)\<close>,
  the closing lines of \<open>process_alert\<close>, \<open>process_action\<close> and \<open>process_status\<close>.
\<close>

definition resync :: "'c env \<Rightarrow> pyval \<Rightarrow> event list \<times> (exn + pyval)" where
  "resync env v =
     (case v of
        PAlert a \<Rightarrow>
          (case update_tags env a (tags a) of
             Inl e \<Rightarrow> ([UpdateTags (tags a)], Inl e)
           | Inr u \<Rightarrow>
               (case update_attributes env a (attributes a) of
                  Inl e \<Rightarrow> ([UpdateTags (tags a), UpdateAttributes (attributes a)], Inl e)
                | Inr attrs \<Rightarrow>
                    ([UpdateTags (tags a), UpdateAttributes (attributes a)],
                     Inr (PAlert (a\<lparr>attributes := attrs\<rparr>)))))
      | _ \<Rightarrow> ([], Inl (attribute_error v ''update_tags'')))"

text \<open>
  \<open>alert.update_tags(alert.tags); alert.update_attributes(alert.attributes)\<close>, the closing
  lines of \<open>process_note\<close>.
\<close>

definition resync_note :: "'c env \<Rightarrow> pyval \<Rightarrow> event list \<times> (exn + pyval)" where
  "resync_note env v =
     (case v of
        PAlert a \<Rightarrow>
          (case update_tags env a (tags a) of
             Inl e \<Rightarrow> ([UpdateTags (tags a)], Inl e)
           | Inr u \<Rightarrow>
               (case update_attributes env a (attributes a) of
                  Inl e \<Rightarrow> ([UpdateTags (tags a), UpdateAttributes (attributes a)], Inl e)
                | Inr attrs \<Rightarrow>
                    ([UpdateTags (tags a), UpdateAttributes (attributes a)], Inr (PAlert a))))
      | _ \<Rightarrow> ([], Inl (attribute_error v ''update_tags'')))"

subsection \<open>process_action\<close>

type_synonym action_state = "pyval \<times> pyval \<times> pyval \<times> pyval \<times> bool"

text \<open>Lines 117 to 124: what \<open>updated\<close> does to \<open>alert, action, text, timeout\<close>.\<close>

definition action_updated :: "pyval \<Rightarrow> action_state \<Rightarrow> action_state" where
  "action_updated updated st =
     (case st of (alert, action, tx, timeout, alert_was_updated) \<Rightarrow>
        (case (if is_alert updated then PTuple [updated, action, tx, timeout] else updated) of
           PTuple [a, b, c, d] \<Rightarrow> (a, b, c, d, True)
         | PTuple [a, b, c] \<Rightarrow> (a, b, c, timeout, True)
         | PTuple vs \<Rightarrow> (alert, action, tx, timeout, True)
         | _ \<Rightarrow> st))"

definition take_action_step :: "'c env \<Rightarrow> 'c \<Rightarrow> 'c plugin \<Rightarrow> action_state \<Rightarrow> event list \<times> action_state ctl" where
  "take_action_step env wanted_config p st =
     (case st of (alert, action, tx, timeout, alert_was_updated) \<Rightarrow>
        (case getattr_is_suppressed alert of
           Inl e \<Rightarrow> ([], Raise e)
         | Inr suppressed \<Rightarrow>
             if suppressed then ([], Break st)
             else
               (case take_action p alert action tx timeout wanted_config of
                  Inr updated \<Rightarrow>
                    ([Invoke (name p) TakeAction WithConfig], Next (action_updated updated st))
                | Inl e \<Rightarrow>
                    if isinstance e NotImplementedError then
                      ([Invoke (name p) TakeAction WithConfig], Next (action_updated PNone st))
                    else if isinstance_any e [RejectException, ForwardingLoop, InvalidAction, AlertaException] then
                      ([Invoke (name p) TakeAction WithConfig], Raise e)
                    else if \<not> isinstance e Exception then
                      ([Invoke (name p) TakeAction WithConfig], Raise e)
                    else if raise_on_error env then
                      ([Invoke (name p) TakeAction WithConfig],
                       Raise (raise_exn ApiError (error_message ''action'' p e)))
                    else
                      ([Invoke (name p) TakeAction WithConfig, LogError (error_message ''action'' p e)],
                       Next (action_updated PNone st)))))"

definition process_action :: "'c env \<Rightarrow> alert \<Rightarrow> pyval \<Rightarrow> pyval \<Rightarrow> pyval \<Rightarrow> event list \<times> (exn + pyval \<times> pyval \<times> pyval \<times> pyval)" where
  "process_action env alert0 action0 text0 timeout0 =
     (case routing env alert0 of (wanted_plugins, wanted_config) \<Rightarrow>
        (case for_loop (take_action_step env wanted_config) wanted_plugins
                (PAlert alert0, action0, text0, timeout0, False) of
           (tr, c) \<Rightarrow>
             (case loop_exit c of
                Inl e \<Rightarrow> (tr, Inl e)
              | Inr (alert, action, tx, timeout, alert_was_updated) \<Rightarrow>
                  if alert_was_updated then
                    (case resync env alert of
                       (tr', Inl e) \<Rightarrow> (tr @ tr', Inl e)
                     | (tr', Inr alert') \<Rightarrow> (tr @ tr', Inr (alert', action, tx, timeout)))
                  else (tr, Inr (alert, action, tx, timeout)))))"

subsection \<open>process_note\<close>

type_synonym note_state = "pyval \<times> pyval \<times> bool"

text \<open>Lines 152 to 156: what \<open>updated\<close> does to \<open>alert, text\<close>.\<close>

definition note_updated :: "pyval \<Rightarrow> note_state \<Rightarrow> note_state" where
  "note_updated updated st =
     (case st of (alert, tx, alert_was_updated) \<Rightarrow>
        (case (if is_alert updated then PTuple [updated, tx] else updated) of
           PTuple [a, b] \<Rightarrow> (a, b, True)
         | _ \<Rightarrow> st))"

definition take_note_step :: "'c env \<Rightarrow> 'c \<Rightarrow> 'c plugin \<Rightarrow> note_state \<Rightarrow> event list \<times> note_state ctl" where
  "take_note_step env wanted_config p st =
     (case st of (alert, tx, alert_was_updated) \<Rightarrow>
        (case take_note p alert tx wanted_config of
           Inr updated \<Rightarrow>
             ([Invoke (name p) TakeNote WithConfig], Next (note_updated updated st))
         | Inl e \<Rightarrow>
             if isinstance e NotImplementedError then
               ([Invoke (name p) TakeNote WithConfig], Next (note_updated PNone st))
             else if isinstance_any e [RejectException, ForwardingLoop, AlertaException] then
               ([Invoke (name p) TakeNote WithConfig], Raise e)
             else if \<not> isinstance e Exception then
               ([Invoke (name p) TakeNote WithConfig], Raise e)
             else if raise_on_error env then
               ([Invoke (name p) TakeNote WithConfig],
                Raise (raise_exn ApiError (error_message ''note'' p e)))
             else
               ([Invoke (name p) TakeNote WithConfig, LogError (error_message ''note'' p e)],
                Next (note_updated PNone st))))"

definition process_note :: "'c env \<Rightarrow> alert \<Rightarrow> pyval \<Rightarrow> event list \<times> (exn + pyval \<times> pyval)" where
  "process_note env alert0 text0 =
     (case routing env alert0 of (wanted_plugins, wanted_config) \<Rightarrow>
        (case for_loop (take_note_step env wanted_config) wanted_plugins
                (PAlert alert0, text0, False) of
           (tr, c) \<Rightarrow>
             (case loop_exit c of
                Inl e \<Rightarrow> (tr, Inl e)
              | Inr (alert, tx, alert_was_updated) \<Rightarrow>
                  if alert_was_updated then
                    (case resync_note env alert of
                       (tr', Inl e) \<Rightarrow> (tr @ tr', Inl e)
                     | (tr', Inr alert') \<Rightarrow> (tr @ tr', Inr (alert', tx)))
                  else (tr, Inr (alert, tx)))))"

subsection \<open>process_status\<close>

type_synonym status_state = "pyval \<times> pyval \<times> pyval \<times> bool"

text \<open>
  \<open>alert, status, text = updated\<close>: a tuple of three elements or a string of three
  characters unpacks; anything else raises (\<open>TypeError\<close> for an object that is not
  iterable, \<open>ValueError\<close> for the wrong number of elements).
\<close>

fun unpack3 :: "pyval \<Rightarrow> (pyval \<times> pyval \<times> pyval) option" where
  "unpack3 (PTuple [a, b, c]) = Some (a, b, c)"
| "unpack3 (PStr [a, b, c]) = Some (PStr [a], PStr [b], PStr [c])"
| "unpack3 v = None"

text \<open>Lines 185 to 190.\<close>

definition status_updated :: "pyval \<Rightarrow> status_state \<Rightarrow> status_state" where
  "status_updated updated st =
     (case st of (alert, status, tx, alert_was_updated) \<Rightarrow>
        if truthy updated then
          (case unpack3 updated of
             Some (a, b, c) \<Rightarrow> (a, b, c, True)
           | None \<Rightarrow> (updated, status, tx, True))
        else st)"

definition status_change_step :: "'c env \<Rightarrow> 'c \<Rightarrow> 'c plugin \<Rightarrow> status_state \<Rightarrow> event list \<times> status_state ctl" where
  "status_change_step env wanted_config p st =
     (case st of (alert, status, tx, alert_was_updated) \<Rightarrow>
        (case getattr_is_suppressed alert of
           Inl e \<Rightarrow> ([], Raise e)
         | Inr suppressed \<Rightarrow>
             if suppressed then ([], Break st)
             else
               (case status_change p alert status tx (Some wanted_config) of
                  Inr updated \<Rightarrow>
                    ([Invoke (name p) StatusChange WithConfig], Next (status_updated updated st))
                | Inl e \<Rightarrow>
                    if isinstance e TypeError then
                      (case status_change p alert status tx None of
                         Inr updated \<Rightarrow>
                           ([Invoke (name p) StatusChange WithConfig,
                             Invoke (name p) StatusChange WithoutConfig],
                            Next (status_updated updated st))
                       | Inl e' \<Rightarrow>
                           ([Invoke (name p) StatusChange WithConfig,
                             Invoke (name p) StatusChange WithoutConfig],
                            Raise e'))
                    else if isinstance_any e [RejectException, AlertaException] then
                      ([Invoke (name p) StatusChange WithConfig], Raise e)
                    else if \<not> isinstance e Exception then
                      ([Invoke (name p) StatusChange WithConfig], Raise e)
                    else if raise_on_error env then
                      ([Invoke (name p) StatusChange WithConfig],
                       Raise (raise_exn ApiError (error_message ''status'' p e)))
                    else
                      ([Invoke (name p) StatusChange WithConfig, LogError (error_message ''status'' p e)],
                       Next (status_updated PNone st)))))"

definition process_status :: "'c env \<Rightarrow> alert \<Rightarrow> pyval \<Rightarrow> pyval \<Rightarrow> event list \<times> (exn + pyval \<times> pyval \<times> pyval)" where
  "process_status env alert0 status0 text0 =
     (case routing env alert0 of (wanted_plugins, wanted_config) \<Rightarrow>
        (case for_loop (status_change_step env wanted_config) wanted_plugins
                (PAlert alert0, status0, text0, False) of
           (tr, c) \<Rightarrow>
             (case loop_exit c of
                Inl e \<Rightarrow> (tr, Inl e)
              | Inr (alert, status, tx, alert_was_updated) \<Rightarrow>
                  if alert_was_updated then
                    (case resync env alert of
                       (tr', Inl e) \<Rightarrow> (tr @ tr', Inl e)
                     | (tr', Inr alert') \<Rightarrow> (tr @ tr', Inr (alert', status, tx)))
                  else (tr, Inr (alert, status, tx)))))"

subsection \<open>process_delete\<close>

text \<open>
  \<open>delete = delete and plugin.delete(alert, config=wanted_config)\<close>: Python evaluates the
  right operand of \<open>and\<close> only when the left one is truthy, and the value of the
  expression is then the right operand; otherwise it is the left operand. When the call
  raises, the assignment does not happen.
\<close>

definition delete_step :: "'c env \<Rightarrow> 'c \<Rightarrow> alert \<Rightarrow> 'c plugin \<Rightarrow> pyval \<Rightarrow> event list \<times> pyval ctl" where
  "delete_step env wanted_config alert p del =
     (if truthy del then
        (case delete p (PAlert alert) wanted_config of
           Inr verdict \<Rightarrow> ([Invoke (name p) Delete WithConfig], Next verdict)
         | Inl e \<Rightarrow>
             if isinstance e NotImplementedError then
               ([Invoke (name p) Delete WithConfig], Next del)
             else if isinstance_any e [RejectException, AlertaException] then
               ([Invoke (name p) Delete WithConfig], Raise e)
             else if \<not> isinstance e Exception then
               ([Invoke (name p) Delete WithConfig], Raise e)
             else if raise_on_error env then
               ([Invoke (name p) Delete WithConfig],
                Raise (raise_exn ApiError (error_message ''delete'' p e)))
             else
               ([Invoke (name p) Delete WithConfig, LogError (error_message ''delete'' p e)],
                Next del))
      else ([], Next del))"

definition process_delete :: "'c env \<Rightarrow> alert \<Rightarrow> event list \<times> (exn + pyval)" where
  "process_delete env alert =
     (case routing env alert of (wanted_plugins, wanted_config) \<Rightarrow>
        (case for_loop (delete_step env wanted_config alert) wanted_plugins (PBool True) of
           (tr, c) \<Rightarrow>
             (case loop_exit c of
                Inl e \<Rightarrow> (tr, Inl e)
              | Inr del \<Rightarrow>
                  if truthy del then
                    (case delete_alert env alert of
                       Inl e \<Rightarrow> (tr @ [DeleteAlert], Inl e)
                     | Inr b \<Rightarrow> (tr @ [DeleteAlert], Inr (PBool b)))
                  else (tr, Inr del))))"

subsection \<open>process_alert\<close>

type_synonym pre_state = "pyval \<times> bool"

text \<open>Lines 51 and 52, after the value \<open>r\<close> has been assigned to \<open>alert\<close>.\<close>

definition pre_received :: "'c plugin \<Rightarrow> event list \<Rightarrow> pyval \<Rightarrow> bool \<Rightarrow> event list \<times> pre_state ctl" where
  "pre_received p ev r skip_plugins =
     (if \<not> truthy r then
        (ev, Raise (raise_exn SyntaxError
           (''Plugin '' @ [CHR 0x27] @ name p @ [CHR 0x27] @
            '' pre-receive hook did not return modified alert'')))
      else (ev, Next (r, skip_plugins)))"

definition pre_receive_step :: "'c env \<Rightarrow> 'c \<Rightarrow> 'c plugin \<Rightarrow> pre_state \<Rightarrow> event list \<times> pre_state ctl" where
  "pre_receive_step env wanted_config p st =
     (case st of (alert, skip_plugins) \<Rightarrow>
        (case getattr_is_suppressed alert of
           Inl e \<Rightarrow> ([], Raise e)
         | Inr suppressed \<Rightarrow>
             if suppressed then ([], Break (alert, True))
             else
               (case pre_receive p alert (Some wanted_config) of
                  Inr r \<Rightarrow>
                    pre_received p [Invoke (name p) PreReceive WithConfig] r skip_plugins
                | Inl e \<Rightarrow>
                    if isinstance e TypeError then
                      (case pre_receive p alert None of
                         Inr r \<Rightarrow>
                           pre_received p
                             [Invoke (name p) PreReceive WithConfig,
                              Invoke (name p) PreReceive WithoutConfig] r skip_plugins
                       | Inl e' \<Rightarrow>
                           ([Invoke (name p) PreReceive WithConfig,
                             Invoke (name p) PreReceive WithoutConfig],
                            Raise e'))
                    else if isinstance_any e [RejectException, HeartbeatReceived, BlackoutPeriod,
                                              RateLimit, ForwardingLoop, AlertaException] then
                      ([Invoke (name p) PreReceive WithConfig], Raise e)
                    else if \<not> isinstance e Exception then
                      ([Invoke (name p) PreReceive WithConfig], Raise e)
                    else if raise_on_error env then
                      ([Invoke (name p) PreReceive WithConfig],
                       Raise (raise_exn RuntimeError (error_message ''pre-receive'' p e)))
                    else
                      pre_received p
                        [Invoke (name p) PreReceive WithConfig,
                         LogError (error_message ''pre-receive'' p e)] alert skip_plugins)))"

text \<open>
  Lines 54 to 65. The clause \<open>except Exception as e: raise ApiError(str(e))\<close> replaces
  an instance of \<open>Exception\<close> that the block raises, also the \<open>AttributeError\<close> of a
  value that is not an alert; any other exception leaves the block as it is.
\<close>

definition api_error :: "exn \<Rightarrow> exn" where
  "api_error e = (if isinstance e Exception then raise_exn ApiError (message e) else e)"

definition lifecycle :: "'c env \<Rightarrow> pyval \<Rightarrow> event list \<times> (exn + alert)" where
  "lifecycle env v =
     (case v of
        PAlert a \<Rightarrow>
          (case is_duplicate env a of
             Inl e \<Rightarrow> ([IsDuplicate], Inl (api_error e))
           | Inr (Some dup) \<Rightarrow>
               (case deduplicate env a dup of
                  Inl e \<Rightarrow> ([IsDuplicate, Deduplicate dup], Inl (api_error e))
                | Inr a' \<Rightarrow> ([IsDuplicate, Deduplicate dup], Inr a'))
           | Inr None \<Rightarrow>
               (case is_correlated env a of
                  Inl e \<Rightarrow> ([IsDuplicate, IsCorrelated], Inl (api_error e))
                | Inr (Some cor) \<Rightarrow>
                    (case update env a cor of
                       Inl e \<Rightarrow> ([IsDuplicate, IsCorrelated, Update cor], Inl (api_error e))
                     | Inr a' \<Rightarrow> ([IsDuplicate, IsCorrelated, Update cor], Inr a'))
                | Inr None \<Rightarrow>
                    (case create env a of
                       Inl e \<Rightarrow> ([IsDuplicate, IsCorrelated, Create], Inl (api_error e))
                     | Inr a' \<Rightarrow> ([IsDuplicate, IsCorrelated, Create], Inr a'))))
      | _ \<Rightarrow> ([], Inl (api_error (attribute_error v ''is_duplicate''))))"

type_synonym post_state = "pyval \<times> bool"

text \<open>Lines 85 to 87.\<close>

definition post_updated :: "pyval \<Rightarrow> post_state \<Rightarrow> post_state" where
  "post_updated updated st = (if truthy updated then (updated, True) else st)"

definition post_receive_step :: "'c env \<Rightarrow> 'c \<Rightarrow> bool \<Rightarrow> 'c plugin \<Rightarrow> post_state \<Rightarrow> event list \<times> post_state ctl" where
  "post_receive_step env wanted_config skip_plugins p st =
     (case st of (alert, alert_was_updated) \<Rightarrow>
        if skip_plugins then ([], Break st)
        else
          (case post_receive p alert (Some wanted_config) of
             Inr updated \<Rightarrow>
               ([Invoke (name p) PostReceive WithConfig], Next (post_updated updated st))
           | Inl e \<Rightarrow>
               if isinstance e TypeError then
                 (case post_receive p alert None of
                    Inr updated \<Rightarrow>
                      ([Invoke (name p) PostReceive WithConfig,
                        Invoke (name p) PostReceive WithoutConfig],
                       Next (post_updated updated st))
                  | Inl e' \<Rightarrow>
                      ([Invoke (name p) PostReceive WithConfig,
                        Invoke (name p) PostReceive WithoutConfig],
                       Raise e'))
               else if isinstance_any e [AlertaException] then
                 ([Invoke (name p) PostReceive WithConfig], Raise e)
               else if \<not> isinstance e Exception then
                 ([Invoke (name p) PostReceive WithConfig], Raise e)
               else if raise_on_error env then
                 ([Invoke (name p) PostReceive WithConfig],
                  Raise (raise_exn ApiError (error_message ''post-receive'' p e)))
               else
                 ([Invoke (name p) PostReceive WithConfig,
                   LogError (error_message ''post-receive'' p e)],
                  Next (post_updated PNone st))))"

text \<open>Lines 67 to 93: the second routing, the post-receive loop and the resync.\<close>

definition post_phase :: "'c env \<Rightarrow> bool \<Rightarrow> alert \<Rightarrow> event list \<times> (exn + pyval)" where
  "post_phase env skip_plugins alert2 =
     (case routing env alert2 of (wanted_plugins, wanted_config) \<Rightarrow>
        (case for_loop (post_receive_step env wanted_config skip_plugins) wanted_plugins
                (PAlert alert2, False) of
           (tr, c) \<Rightarrow>
             (case loop_exit c of
                Inl e \<Rightarrow> (tr, Inl e)
              | Inr (alert, alert_was_updated) \<Rightarrow>
                  if alert_was_updated then
                    (case resync env alert of (tr', r) \<Rightarrow> (tr @ tr', r))
                  else (tr, Inr alert))))"

text \<open>Lines 33 to 65: the first routing, the pre-receive loop and the lifecycle resolution.\<close>

definition pre_phase :: "'c env \<Rightarrow> alert \<Rightarrow> event list \<times> (exn + alert \<times> bool)" where
  "pre_phase env alert0 =
     (case routing env alert0 of (wanted_plugins, wanted_config) \<Rightarrow>
        (case for_loop (pre_receive_step env wanted_config) wanted_plugins (PAlert alert0, False) of
           (tr1, c) \<Rightarrow>
             (case loop_exit c of
                Inl e \<Rightarrow> (tr1, Inl e)
              | Inr (alert1, skip_plugins) \<Rightarrow>
                  (case lifecycle env alert1 of
                     (tr2, Inl e) \<Rightarrow> (tr1 @ tr2, Inl e)
                   | (tr2, Inr alert2) \<Rightarrow> (tr1 @ tr2, Inr (alert2, skip_plugins))))))"

definition process_alert :: "'c env \<Rightarrow> alert \<Rightarrow> event list \<times> (exn + pyval)" where
  "process_alert env alert0 =
     (case pre_phase env alert0 of
        (tr, Inl e) \<Rightarrow> (tr, Inl e)
      | (tr, Inr (alert2, skip_plugins)) \<Rightarrow>
          (case post_phase env skip_plugins alert2 of (tr3, r) \<Rightarrow> (tr @ tr3, r)))"

subsection \<open>Notions used in the statements\<close>

text \<open>The calls that are plugin hooks or the resync of tags and attributes.\<close>

fun hook_or_resync :: "event \<Rightarrow> bool" where
  "hook_or_resync (Invoke n h sh) = True"
| "hook_or_resync (UpdateTags ts) = True"
| "hook_or_resync (UpdateAttributes at) = True"
| "hook_or_resync ev = False"

text \<open>
  For the delete chain: a plugin does not deny when its hook returns a truthy verdict or
  returns none (it raises). \<open>delete_invoked\<close> lists the plugins of a chain up to and
  including the first that denies; \<open>invoked\<close> lists the plugins whose hooks a trace
  of calls invokes.
\<close>

definition verdict_ok :: "'c \<Rightarrow> alert \<Rightarrow> 'c plugin \<Rightarrow> bool" where
  "verdict_ok cfg alert p =
     (case delete p (PAlert alert) cfg of Inr verdict \<Rightarrow> truthy verdict | Inl e \<Rightarrow> True)"

fun delete_invoked :: "'c \<Rightarrow> alert \<Rightarrow> 'c plugin list \<Rightarrow> string list" where
  "delete_invoked cfg alert [] = []"
| "delete_invoked cfg alert (p # ps) =
     name p # (if verdict_ok cfg alert p then delete_invoked cfg alert ps else [])"

fun invoked :: "event list \<Rightarrow> string list" where
  "invoked [] = []"
| "invoked (Invoke n h sh # evs) = n # invoked evs"
| "invoked (ev # evs) = invoked evs"

text \<open>
  The tuples of the \<open>except (...): raise\<close> clauses, by hook: lines 44, 78, 109, 144, 178
  and 209.
\<close>

fun reraised :: "hook \<Rightarrow> exc_class list" where
  "reraised PreReceive =
     [RejectException, HeartbeatReceived, BlackoutPeriod, RateLimit, ForwardingLoop, AlertaException]"
| "reraised PostReceive = [AlertaException]"
| "reraised TakeAction = [RejectException, ForwardingLoop, InvalidAction, AlertaException]"
| "reraised TakeNote = [RejectException, ForwardingLoop, AlertaException]"
| "reraised StatusChange = [RejectException, AlertaException]"
| "reraised Delete = [RejectException, AlertaException]"


text \<open>
  The clause that comes first in each handler (\<open>except TypeError\<close> or
  \<open>except NotImplementedError\<close>), and the exceptions that the last clause,
  \<open>except Exception\<close>, takes: the instances of \<open>Exception\<close> that neither the first
  clause nor the re-raising clause takes.
\<close>

fun first_clause :: "hook \<Rightarrow> exc_class" where
  "first_clause PreReceive = TypeError"
| "first_clause PostReceive = TypeError"
| "first_clause StatusChange = TypeError"
| "first_clause TakeAction = NotImplementedError"
| "first_clause TakeNote = NotImplementedError"
| "first_clause Delete = NotImplementedError"

definition generic_fault :: "hook \<Rightarrow> exn \<Rightarrow> bool" where
  "generic_fault h e =
     (isinstance e Exception \<and> \<not> isinstance e (first_clause h) \<and>
      \<not> isinstance_any e (reraised h))"

text \<open>
  The error raised under \<open>PLUGINS_RAISE_ON_ERROR\<close> (lines 48, 82, 113, 148, 182 and 213)
  and the calls made when the fault is logged instead.
\<close>

fun stage_name :: "hook \<Rightarrow> string" where
  "stage_name PreReceive = ''pre-receive''"
| "stage_name PostReceive = ''post-receive''"
| "stage_name TakeAction = ''action''"
| "stage_name TakeNote = ''note''"
| "stage_name StatusChange = ''status''"
| "stage_name Delete = ''delete''"

fun wrapper_class :: "hook \<Rightarrow> exc_class" where
  "wrapper_class PreReceive = RuntimeError"
| "wrapper_class h = ApiError"

definition wrapped :: "hook \<Rightarrow> 'c plugin \<Rightarrow> exn \<Rightarrow> exn" where
  "wrapped h p e = raise_exn (wrapper_class h) (error_message (stage_name h) p e)"

definition logged :: "hook \<Rightarrow> 'c plugin \<Rightarrow> exn \<Rightarrow> event list" where
  "logged h p e = [Invoke (name p) h WithConfig, LogError (error_message (stage_name h) p e)]"

text \<open>The text \<open>str(e)\<close> of the exception that a result raises, when it raises.\<close>

definition raised_message :: "exn + 'a \<Rightarrow> string option" where
  "raised_message r = (case r of Inl e \<Rightarrow> Some (message e) | Inr v \<Rightarrow> None)"

text \<open>
  The loop over \<open>chain\<close> from state \<open>s0\<close> makes the calls \<open>tr\<close> and then goes on as the
  loop over \<open>qs\<close> from state \<open>s\<close>.
\<close>

definition continues_from :: "('p \<Rightarrow> 's \<Rightarrow> event list \<times> 's ctl) \<Rightarrow> 'p list \<Rightarrow> 's \<Rightarrow> event list \<Rightarrow> 'p list \<Rightarrow> 's \<Rightarrow> bool" where
  "continues_from body chain s0 tr qs s =
     (for_loop body chain s0 = (tr @ fst (for_loop body qs s), snd (for_loop body qs s)))"

text \<open>
  The value with which \<open>try: h(config=cfg)\<close> \<open>except TypeError: h()\<close> ends when it
  returns, and the call shapes made.
\<close>

definition two_shape_return :: "('c option \<Rightarrow> hook_result) \<Rightarrow> 'c \<Rightarrow> (shape list \<times> pyval) option" where
  "two_shape_return h cfg =
     (case h (Some cfg) of
        Inr v \<Rightarrow> Some ([WithConfig], v)
      | Inl e \<Rightarrow>
          if isinstance e TypeError then
            (case h None of
               Inr v \<Rightarrow> Some ([WithConfig, WithoutConfig], v)
             | Inl e' \<Rightarrow> None)
          else None)"

text \<open>The \<open>SyntaxError\<close> of line 52.\<close>

definition no_alert_error :: "'c plugin \<Rightarrow> exn" where
  "no_alert_error p =
     raise_exn SyntaxError
       (''Plugin '' @ [CHR 0x27] @ name p @ [CHR 0x27] @
        '' pre-receive hook did not return modified alert'')"

text \<open>
  The shapes of the hook calls in a trace, and the shapes that the handler
  \<open>try: h(config=cfg)\<close> \<open>except TypeError: h()\<close> goes through, given what the first
  call did.
\<close>

fun shapes_of :: "event list \<Rightarrow> shape list" where
  "shapes_of [] = []"
| "shapes_of (Invoke n h sh # evs) = sh # shapes_of evs"
| "shapes_of (ev # evs) = shapes_of evs"

definition attempted :: "hook_result \<Rightarrow> shape list" where
  "attempted r =
     (case r of
        Inr v \<Rightarrow> [WithConfig]
      | Inl e \<Rightarrow> if isinstance e TypeError then [WithConfig, WithoutConfig] else [WithConfig])"

subsection \<open>Example alerts, plugins and environments\<close>

text \<open>
  \<open>plugin_base\<close> behaves as a plugin that overrides nothing it does not have to:
  its pre-receive hook returns the alert it was given, its post-receive and status hooks
  return nothing, and the hooks it does not implement raise \<open>NotImplementedError\<close>.
  \<open>example_env\<close> routes every alert to the same chain and has an alert model in which
  nothing is a duplicate or correlated and every operation succeeds.
\<close>

definition example_alert :: alert where
  "example_alert =
     \<lparr>ident = ''a1'', is_suppressed = False, tags = [''prod''],
      attributes = [(''ip'', ''10.0.0.1'')]\<rparr>"

definition plugin_base :: "string \<Rightarrow> string plugin" where
  "plugin_base n =
     \<lparr>name = n,
      pre_receive = (\<lambda>a c. Inr a),
      post_receive = (\<lambda>a c. Inr PNone),
      take_action = (\<lambda>a ac t tmo c. Inl (raise_exn NotImplementedError [])),
      take_note = (\<lambda>a t c. Inl (raise_exn NotImplementedError [])),
      status_change = (\<lambda>a s t c. Inr PNone),
      delete = (\<lambda>a c. Inl (raise_exn NotImplementedError []))\<rparr>"

definition example_env :: "string plugin list \<Rightarrow> bool \<Rightarrow> string env" where
  "example_env ps strict =
     \<lparr>routing = (\<lambda>a. (ps, ''cfg'')),
      raise_on_error = strict,
      is_duplicate = (\<lambda>a. Inr None),
      deduplicate = (\<lambda>a d. Inr d),
      is_correlated = (\<lambda>a. Inr None),
      update = (\<lambda>a c. Inr c),
      create = (\<lambda>a. Inr a),
      delete_alert = (\<lambda>a. Inr True),
      update_tags = (\<lambda>a t. Inr ()),
      update_attributes = (\<lambda>a at. Inr at)\<rparr>"

text \<open>An action plugin that answers with \<open>(alert, action, text)\<close>.\<close>

definition ack_plugin :: "string plugin" where
  "ack_plugin =
     (plugin_base ''ack'')
       \<lparr>take_action := (\<lambda>a ac t tmo c. Inr (PTuple [a, PStr ''ack'', PStr ''acked'']))\<rparr>"

text \<open>
  A plugin whose every hook hands back the alert it was given, and an alert model whose
  \<open>update_attributes\<close> returns more than it was passed.
\<close>

definition touch_plugin :: "string plugin" where
  "touch_plugin =
     \<lparr>name = ''touch'',
      pre_receive = (\<lambda>a c. Inr a),
      post_receive = (\<lambda>a c. Inr a),
      take_action = (\<lambda>a ac t tmo c. Inr a),
      take_note = (\<lambda>a t c. Inr a),
      status_change = (\<lambda>a s t c. Inr a),
      delete = (\<lambda>a c. Inr (PBool True))\<rparr>"

definition stamping_env :: "string plugin list \<Rightarrow> string env" where
  "stamping_env ps = (example_env ps False)\<lparr>update_attributes := (\<lambda>a at. Inr ((''synced'', ''yes'') # at))\<rparr>"

text \<open>
  Alert models for the lifecycle resolution: one that finds a duplicate, one that finds a
  correlated alert, one whose \<open>create\<close> raises \<open>RejectException\<close>, one whose
  \<open>is_duplicate\<close> fails, and one whose \<open>is_duplicate\<close> is interrupted from the
  keyboard.
\<close>

definition stored_alert :: alert where
  "stored_alert = example_alert\<lparr>ident := ''a0''\<rparr>"

definition duplicate_env :: "string env" where
  "duplicate_env = (example_env [] True)\<lparr>is_duplicate := (\<lambda>a. Inr (Some stored_alert))\<rparr>"

definition correlated_env :: "string env" where
  "correlated_env = (example_env [] True)\<lparr>is_correlated := (\<lambda>a. Inr (Some stored_alert))\<rparr>"

definition rejecting_env :: "string env" where
  "rejecting_env =
     (example_env [] False)
       \<lparr>create := (\<lambda>a. Inl \<lparr>classes = [RejectException, Exception], message = ''no environment''\<rparr>)\<rparr>"

definition unreachable_env :: "string env" where
  "unreachable_env =
     (example_env [] False)
       \<lparr>is_duplicate :=
          (\<lambda>a. Inl \<lparr>classes = [UserClass ''ConnectionError'', Exception],
                       message = ''db is down''\<rparr>)\<rparr>"

definition keyboard_interrupt :: exn where
  "keyboard_interrupt = \<lparr>classes = [KeyboardInterrupt], message = []\<rparr>"

definition interrupted_env :: "string env" where
  "interrupted_env = (example_env [] False)\<lparr>is_duplicate := (\<lambda>a. Inl keyboard_interrupt)\<rparr>"

text \<open>
  A suppressed alert; an alert model whose \<open>create\<close> returns the alert under the
  identifier it was stored with; and a routing that has plugins for stored alerts only.
\<close>

definition suppressed_alert :: alert where
  "suppressed_alert = example_alert\<lparr>is_suppressed := True\<rparr>"

definition storing_env :: "string plugin list \<Rightarrow> string env" where
  "storing_env ps = (example_env ps True)\<lparr>create := (\<lambda>a. Inr (a\<lparr>ident := ''stored''\<rparr>))\<rparr>"

definition rerouting_env :: "string env" where
  "rerouting_env =
     (storing_env [])
       \<lparr>routing := (\<lambda>a. if ident a = ''stored'' then ([touch_plugin], ''cfg'') else ([], ''cfg''))\<rparr>"

text \<open>A plugin that vetoes deletion and one that allows it.\<close>

definition deny_plugin :: "string plugin" where
  "deny_plugin = (plugin_base ''deny'')\<lparr>delete := (\<lambda>a c. Inr (PBool False))\<rparr>"

definition allow_plugin :: "string plugin" where
  "allow_plugin = (plugin_base ''allow'')\<lparr>delete := (\<lambda>a c. Inr (PBool True))\<rparr>"









text \<open>
  Plugins that fail: with a \<open>ValueError\<close> from every hook, or from the post-receive hook
  only; with a \<open>TypeError\<close> when called with \<open>config\<close> and not without it; with a
  \<open>TypeError\<close> in either shape.
\<close>

definition bad_value :: exn where
  "bad_value = \<lparr>classes = [UserClass ''ValueError'', Exception], message = ''bad value''\<rparr>"

definition broken_plugin :: "string plugin" where
  "broken_plugin =
     \<lparr>name = ''broken'',
      pre_receive = (\<lambda>a c. Inl bad_value),
      post_receive = (\<lambda>a c. Inl bad_value),
      take_action = (\<lambda>a ac t tmo c. Inl bad_value),
      take_note = (\<lambda>a t c. Inl bad_value),
      status_change = (\<lambda>a s t c. Inl bad_value),
      delete = (\<lambda>a c. Inl bad_value)\<rparr>"

definition late_broken_plugin :: "string plugin" where
  "late_broken_plugin = (plugin_base ''late'')\<lparr>post_receive := (\<lambda>a c. Inl bad_value)\<rparr>"

definition broken_chain :: "string plugin list" where
  "broken_chain = [touch_plugin, broken_plugin, touch_plugin]"

definition late_broken_chain :: "string plugin list" where
  "late_broken_chain = [touch_plugin, late_broken_plugin, touch_plugin]"

definition type_error :: exn where
  "type_error =
     \<lparr>classes = [TypeError, Exception],
       message = ''object of type 'NoneType' has no len()''\<rparr>"

definition legacy_plugin :: "string plugin" where
  "legacy_plugin =
     (plugin_base ''legacy'')
       \<lparr>pre_receive := (\<lambda>a c. case c of Some cfg \<Rightarrow> Inl type_error | None \<Rightarrow> Inr a),
        post_receive := (\<lambda>a c. case c of Some cfg \<Rightarrow> Inl type_error | None \<Rightarrow> Inr a),
        status_change := (\<lambda>a s t c. case c of Some cfg \<Rightarrow> Inl type_error | None \<Rightarrow> Inr a),
        take_action := (\<lambda>a ac t tmo c. Inl type_error),
        take_note := (\<lambda>a t c. Inl type_error),
        delete := (\<lambda>a c. Inl type_error)\<rparr>"

definition type_bug_plugin :: "string plugin" where
  "type_bug_plugin =
     (plugin_base ''buggy'')
       \<lparr>pre_receive := (\<lambda>a c. Inl type_error),
        post_receive := (\<lambda>a c. Inl type_error),
        status_change := (\<lambda>a s t c. Inl type_error)\<rparr>"

text \<open>A plugin whose every hook returns \<open>None\<close>.\<close>

definition quiet_plugin :: "string plugin" where
  "quiet_plugin =
     \<lparr>name = ''quiet'',
      pre_receive = (\<lambda>a c. Inr PNone),
      post_receive = (\<lambda>a c. Inr PNone),
      take_action = (\<lambda>a ac t tmo c. Inr PNone),
      take_note = (\<lambda>a t c. Inr PNone),
      status_change = (\<lambda>a s t c. Inr PNone),
      delete = (\<lambda>a c. Inr PNone)\<rparr>"

definition quiet_chain :: "string plugin list" where
  "quiet_chain = [touch_plugin, quiet_plugin, touch_plugin]"

text \<open>A plugin that implements no hook: each raises \<open>NotImplementedError\<close>.\<close>

definition abstract_plugin :: "string plugin" where
  "abstract_plugin =
     \<lparr>name = ''abstract'',
      pre_receive = (\<lambda>a c. Inl (raise_exn NotImplementedError [])),
      post_receive = (\<lambda>a c. Inl (raise_exn NotImplementedError [])),
      take_action = (\<lambda>a ac t tmo c. Inl (raise_exn NotImplementedError [])),
      take_note = (\<lambda>a t c. Inl (raise_exn NotImplementedError [])),
      status_change = (\<lambda>a s t c. Inl (raise_exn NotImplementedError [])),
      delete = (\<lambda>a c. Inl (raise_exn NotImplementedError []))\<rparr>"

definition abstract_chain :: "string plugin list" where
  "abstract_chain = [touch_plugin, abstract_plugin, touch_plugin]"

text \<open>
  A plugin written before \<open>config\<close> was passed: any call with the keyword argument
  fails with the interpreter's \<open>TypeError\<close>.
\<close>

definition arity_error :: exn where
  "arity_error =
     \<lparr>classes = [TypeError, Exception],
      message = ''take_action() got an unexpected keyword argument '' @
                [CHR 0x27] @ ''config'' @ [CHR 0x27]\<rparr>"

definition old_plugin :: "string plugin" where
  "old_plugin =
     (plugin_base ''old'')
       \<lparr>pre_receive := (\<lambda>a c. case c of Some cfg \<Rightarrow> Inl arity_error | None \<Rightarrow> Inr a),
        take_action := (\<lambda>a ac t tmo c. Inl arity_error)\<rparr>"

section \<open>Properties\<close>

subsection \<open>Loops\<close>

lemma for_loop_append:
  "for_loop body (ps @ qs) s =
     (case for_loop body ps s of
        (tr, Next s') \<Rightarrow> (case for_loop body qs s' of (tr', r) \<Rightarrow> (tr @ tr', r))
      | (tr, Break s') \<Rightarrow> (tr, Break s')
      | (tr, Raise e) \<Rightarrow> (tr, Raise e))"
  by (induction ps arbitrary: s) (auto split: prod.splits ctl.splits)

lemma for_loop_abort:
  assumes "for_loop body ps s0 = (tr, Next s)" and "body p s = (ev, Raise e)"
  shows "for_loop body (ps @ p # qs) s0 = (tr @ ev, Raise e)"
  using assms by (simp add: for_loop_append)

lemma for_loop_continue:
  assumes "for_loop body ps s0 = (tr, Next s)" and "body p s = (ev, Next s')"
  shows "for_loop body (ps @ p # qs) s0 =
           (tr @ ev @ fst (for_loop body qs s'), snd (for_loop body qs s'))"
  using assms by (simp add: for_loop_append split: prod.splits)

subsection \<open>Tuple arity in the action pipeline\<close>

text \<open>
  Claim C9. In \<open>process_action\<close>, whatever the running alert, action, text, timeout and
  mutated flag are when a plugin is reached: if the alert is not suppressed and the hook
  returns a tuple of three elements, these become alert, action and text, the timeout is
  the one that entered the call, and the flag is set; if it returns a tuple of four
  elements, these become alert, action, text and timeout.
\<close>

theorem action_tuple_arity:
  assumes "getattr_is_suppressed alert = Inr False"
  shows "(take_action p alert action tx timeout cfg = Inr (PTuple [a, b, c]) \<longrightarrow>
            take_action_step env cfg p (alert, action, tx, timeout, upd) =
              ([Invoke (name p) TakeAction WithConfig], Next (a, b, c, timeout, True))) \<and>
         (take_action p alert action tx timeout cfg = Inr (PTuple [a, b, c, d]) \<longrightarrow>
            take_action_step env cfg p (alert, action, tx, timeout, upd) =
              ([Invoke (name p) TakeAction WithConfig], Next (a, b, c, d, True)))"
  using assms by (simp add: take_action_step_def action_updated_def)

theorem action_tuple_arity_witness:
  "getattr_is_suppressed (PAlert example_alert) = Inr False \<and>
   take_action ack_plugin (PAlert example_alert) (PStr ''open'') (PStr []) (PInt 30) ''cfg'' =
     Inr (PTuple [PAlert example_alert, PStr ''ack'', PStr ''acked'']) \<and>
   take_action_step (example_env [ack_plugin] True) ''cfg'' ack_plugin
       (PAlert example_alert, PStr ''open'', PStr [], PInt 30, False) =
     ([Invoke ''ack'' TakeAction WithConfig],
      Next (PAlert example_alert, PStr ''ack'', PStr ''acked'', PInt 30, True))"
  using action_tuple_arity [of "PAlert example_alert" ack_plugin "PStr ''open''" "PStr []"
      "PInt 30" "''cfg''" "PAlert example_alert" "PStr ''ack''" "PStr ''acked''"
      "example_env [ack_plugin] True" False]
  by (simp add: example_alert_def ack_plugin_def plugin_base_def)

subsection \<open>Loop exit of each pipeline\<close>

lemma process_note_exit:
  assumes "routing env a0 = (ps, cfg)"
    and "for_loop (take_note_step env cfg) ps (PAlert a0, text0, False) = (tr, c)"
  shows "process_note env a0 text0 =
     (case loop_exit c of
        Inl e \<Rightarrow> (tr, Inl e)
      | Inr (alert, tx, alert_was_updated) \<Rightarrow>
          if alert_was_updated then
            (case resync_note env alert of
               (tr', Inl e) \<Rightarrow> (tr @ tr', Inl e)
             | (tr', Inr alert') \<Rightarrow> (tr @ tr', Inr (alert', tx)))
          else (tr, Inr (alert, tx)))"
  using assms by (simp add: process_note_def)

lemma process_action_exit:
  assumes "routing env a0 = (ps, cfg)"
    and "for_loop (take_action_step env cfg) ps (PAlert a0, action0, text0, timeout0, False) = (tr, c)"
  shows "process_action env a0 action0 text0 timeout0 =
     (case loop_exit c of
        Inl e \<Rightarrow> (tr, Inl e)
      | Inr (alert, action, tx, timeout, alert_was_updated) \<Rightarrow>
          if alert_was_updated then
            (case resync env alert of
               (tr', Inl e) \<Rightarrow> (tr @ tr', Inl e)
             | (tr', Inr alert') \<Rightarrow> (tr @ tr', Inr (alert', action, tx, timeout)))
          else (tr, Inr (alert, action, tx, timeout)))"
  using assms by (simp add: process_action_def)

lemma process_status_exit:
  assumes "routing env a0 = (ps, cfg)"
    and "for_loop (status_change_step env cfg) ps (PAlert a0, status0, text0, False) = (tr, c)"
  shows "process_status env a0 status0 text0 =
     (case loop_exit c of
        Inl e \<Rightarrow> (tr, Inl e)
      | Inr (alert, status, tx, alert_was_updated) \<Rightarrow>
          if alert_was_updated then
            (case resync env alert of
               (tr', Inl e) \<Rightarrow> (tr @ tr', Inl e)
             | (tr', Inr alert') \<Rightarrow> (tr @ tr', Inr (alert', status, tx)))
          else (tr, Inr (alert, status, tx)))"
  using assms by (simp add: process_status_def)

lemma post_phase_exit:
  assumes "routing env a2 = (ps, cfg)"
    and "for_loop (post_receive_step env cfg skip) ps (PAlert a2, False) = (tr, c)"
  shows "post_phase env skip a2 =
     (case loop_exit c of
        Inl e \<Rightarrow> (tr, Inl e)
      | Inr (alert, alert_was_updated) \<Rightarrow>
          if alert_was_updated then (tr @ fst (resync env alert), snd (resync env alert))
          else (tr, Inr alert))"
  using assms by (simp add: post_phase_def split: prod.splits sum.splits)

lemma pre_phase_exit:
  assumes "routing env a0 = (ps, cfg)"
    and "for_loop (pre_receive_step env cfg) ps (PAlert a0, False) = (tr, c)"
  shows "pre_phase env a0 =
     (case loop_exit c of
        Inl e \<Rightarrow> (tr, Inl e)
      | Inr (alert1, skip) \<Rightarrow>
          (case lifecycle env alert1 of
             (tr2, Inl e) \<Rightarrow> (tr @ tr2, Inl e)
           | (tr2, Inr alert2) \<Rightarrow> (tr @ tr2, Inr (alert2, skip))))"
  using assms by (simp add: pre_phase_def)

lemma process_delete_exit:
  assumes "routing env a0 = (ps, cfg)"
    and "for_loop (delete_step env cfg a0) ps (PBool True) = (tr, c)"
  shows "process_delete env a0 =
     (case loop_exit c of
        Inl e \<Rightarrow> (tr, Inl e)
      | Inr del \<Rightarrow>
          if truthy del then
            (case delete_alert env a0 of
               Inl e \<Rightarrow> (tr @ [DeleteAlert], Inl e)
             | Inr b \<Rightarrow> (tr @ [DeleteAlert], Inr (PBool b)))
          else (tr, Inr del))"
  using assms by (simp add: process_delete_def)

lemma resync_ok:
  assumes "update_tags env a (tags a) = Inr u"
    and "update_attributes env a (attributes a) = Inr attrs"
  shows "resync env (PAlert a) =
           ([UpdateTags (tags a), UpdateAttributes (attributes a)],
            Inr (PAlert (a\<lparr>attributes := attrs\<rparr>)))"
    and "resync_note env (PAlert a) =
           ([UpdateTags (tags a), UpdateAttributes (attributes a)], Inr (PAlert a))"
  using assms by (simp_all add: resync_def resync_note_def)

subsection \<open>Resync of the attributes\<close>

text \<open>
  Claim C10. When a pipeline leaves its loop with the mutated flag set and an alert \<open>a\<close>,
  and \<open>update_tags\<close> and \<open>update_attributes\<close> succeed, both are called once. In
  \<open>process_note\<close> the attributes that \<open>update_attributes\<close> returned are dropped: the
  alert returned is \<open>a\<close> itself. In \<open>process_action\<close>, \<open>process_status\<close> and
  \<open>process_alert\<close> they are stored in the attributes field of the alert returned.
\<close>

theorem resync_attributes:
  assumes "update_tags env a (tags a) = Inr u"
    and "update_attributes env a (attributes a) = Inr attrs"
  shows
   "(routing env a0 = (ps, cfg) \<and>
     for_loop (take_note_step env cfg) ps (PAlert a0, text0, False) = (tr, cN) \<and>
     loop_exit cN = Inr (PAlert a, tx, True) \<longrightarrow>
       process_note env a0 text0 =
         (tr @ [UpdateTags (tags a), UpdateAttributes (attributes a)], Inr (PAlert a, tx))) \<and>
    (routing env a0 = (ps, cfg) \<and>
     for_loop (take_action_step env cfg) ps (PAlert a0, action0, text0, timeout0, False) = (tr, cA) \<and>
     loop_exit cA = Inr (PAlert a, action, tx, timeout, True) \<longrightarrow>
       process_action env a0 action0 text0 timeout0 =
         (tr @ [UpdateTags (tags a), UpdateAttributes (attributes a)],
          Inr (PAlert (a\<lparr>attributes := attrs\<rparr>), action, tx, timeout))) \<and>
    (routing env a0 = (ps, cfg) \<and>
     for_loop (status_change_step env cfg) ps (PAlert a0, status0, text0, False) = (tr, cS) \<and>
     loop_exit cS = Inr (PAlert a, status, tx, True) \<longrightarrow>
       process_status env a0 status0 text0 =
         (tr @ [UpdateTags (tags a), UpdateAttributes (attributes a)],
          Inr (PAlert (a\<lparr>attributes := attrs\<rparr>), status, tx))) \<and>
    (pre_phase env a0 = (tr0, Inr (a2, skip)) \<and> routing env a2 = (ps, cfg) \<and>
     for_loop (post_receive_step env cfg skip) ps (PAlert a2, False) = (tr, cR) \<and>
     loop_exit cR = Inr (PAlert a, True) \<longrightarrow>
       process_alert env a0 =
         (tr0 @ tr @ [UpdateTags (tags a), UpdateAttributes (attributes a)],
          Inr (PAlert (a\<lparr>attributes := attrs\<rparr>))))"
proof (intro conjI impI)
  assume h: "routing env a0 = (ps, cfg) \<and>
     for_loop (take_note_step env cfg) ps (PAlert a0, text0, False) = (tr, cN) \<and>
     loop_exit cN = Inr (PAlert a, tx, True)"
  then show "process_note env a0 text0 =
         (tr @ [UpdateTags (tags a), UpdateAttributes (attributes a)], Inr (PAlert a, tx))"
    using process_note_exit [of env a0 ps cfg text0 tr cN] resync_ok(2) [OF assms]
    by simp
next
  assume h: "routing env a0 = (ps, cfg) \<and>
     for_loop (take_action_step env cfg) ps (PAlert a0, action0, text0, timeout0, False) = (tr, cA) \<and>
     loop_exit cA = Inr (PAlert a, action, tx, timeout, True)"
  then show "process_action env a0 action0 text0 timeout0 =
         (tr @ [UpdateTags (tags a), UpdateAttributes (attributes a)],
          Inr (PAlert (a\<lparr>attributes := attrs\<rparr>), action, tx, timeout))"
    using process_action_exit [of env a0 ps cfg action0 text0 timeout0 tr cA] resync_ok(1) [OF assms]
    by simp
next
  assume h: "routing env a0 = (ps, cfg) \<and>
     for_loop (status_change_step env cfg) ps (PAlert a0, status0, text0, False) = (tr, cS) \<and>
     loop_exit cS = Inr (PAlert a, status, tx, True)"
  then show "process_status env a0 status0 text0 =
         (tr @ [UpdateTags (tags a), UpdateAttributes (attributes a)],
          Inr (PAlert (a\<lparr>attributes := attrs\<rparr>), status, tx))"
    using process_status_exit [of env a0 ps cfg status0 text0 tr cS] resync_ok(1) [OF assms]
    by simp
next
  assume h: "pre_phase env a0 = (tr0, Inr (a2, skip)) \<and> routing env a2 = (ps, cfg) \<and>
     for_loop (post_receive_step env cfg skip) ps (PAlert a2, False) = (tr, cR) \<and>
     loop_exit cR = Inr (PAlert a, True)"
  then show "process_alert env a0 =
         (tr0 @ tr @ [UpdateTags (tags a), UpdateAttributes (attributes a)],
          Inr (PAlert (a\<lparr>attributes := attrs\<rparr>)))"
    using post_phase_exit [of env a2 ps cfg skip tr cR] resync_ok(1) [OF assms]
    by (simp add: process_alert_def)
qed

lemmas example_defs = example_env_def example_alert_def plugin_base_def touch_plugin_def stamping_env_def
  take_note_step_def note_updated_def take_action_step_def action_updated_def
  status_change_step_def status_updated_def post_receive_step_def post_updated_def
  pre_receive_step_def pre_received_def pre_phase_def lifecycle_def


theorem resync_attributes_witness:
  "process_note (stamping_env [touch_plugin]) example_alert (PStr ''hello'') =
     ([Invoke ''touch'' TakeNote WithConfig, UpdateTags [''prod''], UpdateAttributes [(''ip'', ''10.0.0.1'')]],
      Inr (PAlert example_alert, PStr ''hello'')) \<and>
   process_action (stamping_env [touch_plugin]) example_alert (PStr ''ack'') (PStr ''hello'') PNone =
     ([Invoke ''touch'' TakeAction WithConfig, UpdateTags [''prod''], UpdateAttributes [(''ip'', ''10.0.0.1'')]],
      Inr (PAlert (example_alert\<lparr>attributes := [(''synced'', ''yes''), (''ip'', ''10.0.0.1'')]\<rparr>),
           PStr ''ack'', PStr ''hello'', PNone)) \<and>
   process_status (stamping_env [touch_plugin]) example_alert (PStr ''ack'') (PStr ''hello'') =
     ([Invoke ''touch'' StatusChange WithConfig, UpdateTags [''prod''], UpdateAttributes [(''ip'', ''10.0.0.1'')]],
      Inr (PAlert (example_alert\<lparr>attributes := [(''synced'', ''yes''), (''ip'', ''10.0.0.1'')]\<rparr>),
           PStr ''ack'', PStr ''hello'')) \<and>
   process_alert (stamping_env [touch_plugin]) example_alert =
     ([Invoke ''touch'' PreReceive WithConfig, IsDuplicate, IsCorrelated, Create,
       Invoke ''touch'' PostReceive WithConfig, UpdateTags [''prod''], UpdateAttributes [(''ip'', ''10.0.0.1'')]],
      Inr (PAlert (example_alert\<lparr>attributes := [(''synced'', ''yes''), (''ip'', ''10.0.0.1'')]\<rparr>)))"
  using resync_attributes [where env = "stamping_env [touch_plugin]" and a = example_alert
      and u = "()" and attrs = "[(''synced'', ''yes''), (''ip'', ''10.0.0.1'')]"
      and ?a0.0 = example_alert and ps = "[touch_plugin]" and cfg = "''cfg''"
      and ?text0.0 = "PStr ''hello''" and tx = "PStr ''hello''"
      and ?action0.0 = "PStr ''ack''" and action = "PStr ''ack''"
      and ?status0.0 = "PStr ''ack''" and status = "PStr ''ack''"
      and ?timeout0.0 = PNone and timeout = PNone
      and cN = "Next (PAlert example_alert, PStr ''hello'', True)"
      and cA = "Next (PAlert example_alert, PStr ''ack'', PStr ''hello'', PNone, True)"
      and cS = "Next (PAlert example_alert, PStr ''ack'', PStr ''hello'', True)"
      and cR = "Next (PAlert example_alert, True)"
      and ?a2.0 = example_alert and skip = False
      and ?tr0.0 = "[Invoke ''touch'' PreReceive WithConfig, IsDuplicate, IsCorrelated, Create]"]
  by (simp add: example_defs)

subsection \<open>Lifecycle resolution\<close>

lemma lifecycle_raises_api_error:
  "snd (lifecycle env v) = Inl e \<Longrightarrow> isinstance e Exception \<Longrightarrow> classes e = [ApiError, Exception]"
  by (auto simp: lifecycle_def api_error_def raise_exn_def
      split: pyval.splits sum.splits option.splits if_splits)

text \<open>
  Claim C5, as the code has it. In the lifecycle resolution of \<open>process_alert\<close>: when
  \<open>is_duplicate\<close> returns a match, the calls made are \<open>is_duplicate\<close> and
  \<open>deduplicate(match)\<close> and no others; otherwise, when \<open>is_correlated\<close> returns a
  match, \<open>update(match)\<close> is called; otherwise \<open>create\<close> is called, once. When one of
  these calls raises an instance of \<open>Exception\<close>, of whatever class below it, the stage
  raises an \<open>ApiError\<close> with the message of that exception; an exception that is not an
  instance of \<open>Exception\<close> leaves the stage as it is. An instance of \<open>Exception\<close>
  that the stage raises is that \<open>ApiError\<close>, and what the stage raises leaves
  \<open>process_alert\<close> with nothing called after it.
\<close>

theorem lifecycle_resolution:
  "(is_duplicate env a = Inr (Some dup) \<longrightarrow>
      fst (lifecycle env (PAlert a)) = [IsDuplicate, Deduplicate dup] \<and>
      snd (lifecycle env (PAlert a)) =
        (case deduplicate env a dup of
           Inl e \<Rightarrow> Inl (if isinstance e Exception then raise_exn ApiError (message e) else e)
         | Inr a' \<Rightarrow> Inr a')) \<and>
   (is_duplicate env a = Inr None \<and> is_correlated env a = Inr (Some cor) \<longrightarrow>
      fst (lifecycle env (PAlert a)) = [IsDuplicate, IsCorrelated, Update cor] \<and>
      snd (lifecycle env (PAlert a)) =
        (case update env a cor of
           Inl e \<Rightarrow> Inl (if isinstance e Exception then raise_exn ApiError (message e) else e)
         | Inr a' \<Rightarrow> Inr a')) \<and>
   (is_duplicate env a = Inr None \<and> is_correlated env a = Inr None \<longrightarrow>
      fst (lifecycle env (PAlert a)) = [IsDuplicate, IsCorrelated, Create] \<and>
      snd (lifecycle env (PAlert a)) =
        (case create env a of
           Inl e \<Rightarrow> Inl (if isinstance e Exception then raise_exn ApiError (message e) else e)
         | Inr a' \<Rightarrow> Inr a')) \<and>
   (is_duplicate env a = Inl e \<longrightarrow>
      lifecycle env (PAlert a) =
        ([IsDuplicate],
         Inl (if isinstance e Exception then raise_exn ApiError (message e) else e))) \<and>
   (is_duplicate env a = Inr None \<and> is_correlated env a = Inl e \<longrightarrow>
      lifecycle env (PAlert a) =
        ([IsDuplicate, IsCorrelated],
         Inl (if isinstance e Exception then raise_exn ApiError (message e) else e))) \<and>
   (snd (lifecycle env v) = Inl e' \<and> isinstance e' Exception \<longrightarrow>
      classes e' = [ApiError, Exception]) \<and>
   (routing env a0 = (ps, cfg) \<and>
    for_loop (pre_receive_step env cfg) ps (PAlert a0, False) = (tr, c) \<and>
    loop_exit c = Inr (v, skip) \<and> lifecycle env v = (tr2, Inl e') \<longrightarrow>
      process_alert env a0 = (tr @ tr2, Inl e'))"
proof (intro conjI impI)
  assume "snd (lifecycle env v) = Inl e' \<and> isinstance e' Exception"
  then show "classes e' = [ApiError, Exception]"
    using lifecycle_raises_api_error by blast
next
  assume "routing env a0 = (ps, cfg) \<and>
    for_loop (pre_receive_step env cfg) ps (PAlert a0, False) = (tr, c) \<and>
    loop_exit c = Inr (v, skip) \<and> lifecycle env v = (tr2, Inl e')"
  then show "process_alert env a0 = (tr @ tr2, Inl e')"
    using pre_phase_exit [of env a0 ps cfg tr c] by (simp add: process_alert_def)
qed (simp_all add: lifecycle_def api_error_def split: sum.splits)

lemmas env_defs = example_env_def duplicate_env_def correlated_env_def rejecting_env_def
  unreachable_env_def interrupted_env_def

theorem lifecycle_resolution_witness:
  "lifecycle duplicate_env (PAlert example_alert) =
     ([IsDuplicate, Deduplicate stored_alert], Inr stored_alert) \<and>
   lifecycle correlated_env (PAlert example_alert) =
     ([IsDuplicate, IsCorrelated, Update stored_alert], Inr stored_alert) \<and>
   lifecycle (example_env [] True) (PAlert example_alert) =
     ([IsDuplicate, IsCorrelated, Create], Inr example_alert) \<and>
   lifecycle unreachable_env (PAlert example_alert) =
     ([IsDuplicate], Inl (raise_exn ApiError ''db is down'')) \<and>
   lifecycle interrupted_env (PAlert example_alert) = ([IsDuplicate], Inl keyboard_interrupt) \<and>
   lifecycle rejecting_env (PAlert example_alert) =
     ([IsDuplicate, IsCorrelated, Create], Inl (raise_exn ApiError ''no environment'')) \<and>
   classes (raise_exn ApiError ''no environment'') = [ApiError, Exception] \<and>
   process_alert rejecting_env example_alert =
     ([IsDuplicate, IsCorrelated, Create], Inl (raise_exn ApiError ''no environment''))"
proof -
  have dup: "lifecycle duplicate_env (PAlert example_alert) =
      ([IsDuplicate, Deduplicate stored_alert], Inr stored_alert)"
    using lifecycle_resolution [where env = duplicate_env and a = example_alert
        and dup = stored_alert]
    by (simp add: env_defs prod_eq_iff)
  have cor: "lifecycle correlated_env (PAlert example_alert) =
      ([IsDuplicate, IsCorrelated, Update stored_alert], Inr stored_alert)"
    using lifecycle_resolution [where env = correlated_env and a = example_alert
        and cor = stored_alert]
    by (simp add: env_defs prod_eq_iff)
  have new: "lifecycle (example_env [] True) (PAlert example_alert) =
      ([IsDuplicate, IsCorrelated, Create], Inr example_alert)"
    using lifecycle_resolution [where env = "example_env [] True" and a = example_alert]
    by (simp add: env_defs prod_eq_iff)
  have down: "lifecycle unreachable_env (PAlert example_alert) =
      ([IsDuplicate], Inl (raise_exn ApiError ''db is down''))"
    using lifecycle_resolution [where env = unreachable_env and a = example_alert
        and e = "\<lparr>classes = [UserClass ''ConnectionError'', Exception],
                   message = ''db is down''\<rparr>"]
    by (simp add: env_defs isinstance_def)
  have int: "lifecycle interrupted_env (PAlert example_alert) =
      ([IsDuplicate], Inl keyboard_interrupt)"
    using lifecycle_resolution [where env = interrupted_env and a = example_alert
        and e = keyboard_interrupt]
    by (simp add: env_defs isinstance_def keyboard_interrupt_def)
  have rej: "lifecycle rejecting_env (PAlert example_alert) =
      ([IsDuplicate, IsCorrelated, Create], Inl (raise_exn ApiError ''no environment''))"
    using lifecycle_resolution [where env = rejecting_env and a = example_alert]
    by (simp add: env_defs prod_eq_iff isinstance_def)
  have cls: "classes (raise_exn ApiError ''no environment'') = [ApiError, Exception]"
    using lifecycle_resolution [where env = rejecting_env and v = "PAlert example_alert"
        and e' = "raise_exn ApiError ''no environment''"] rej
    by (simp add: isinstance_def raise_exn_def)
  have all: "process_alert rejecting_env example_alert =
      ([IsDuplicate, IsCorrelated, Create], Inl (raise_exn ApiError ''no environment''))"
    using lifecycle_resolution [where env = rejecting_env and ?a0.0 = example_alert
        and ps = "[]" and cfg = "''cfg''" and tr = "[]" and c = "Next (PAlert example_alert, False)"
        and v = "PAlert example_alert" and skip = False
        and ?tr2.0 = "[IsDuplicate, IsCorrelated, Create]"
        and e' = "raise_exn ApiError ''no environment''"] rej
    by (simp add: env_defs)
  from dup cor new down int rej cls all show ?thesis by simp
qed

text \<open>
  A \<open>KeyboardInterrupt\<close> raised by \<open>is_duplicate\<close> is not an instance of \<open>Exception\<close>:
  the clause at line 64 does not take it, and it leaves the stage and \<open>process_alert\<close>
  as it is, not wrapped in an \<open>ApiError\<close>.
\<close>

theorem lifecycle_resolution_counterexample:
  "is_duplicate interrupted_env example_alert = Inl keyboard_interrupt \<and>
   lifecycle interrupted_env (PAlert example_alert) = ([IsDuplicate], Inl keyboard_interrupt) \<and>
   \<not> isinstance keyboard_interrupt ApiError \<and>
   process_alert interrupted_env example_alert = ([IsDuplicate], Inl keyboard_interrupt)"
  by (simp add: process_alert_def pre_phase_def lifecycle_def api_error_def interrupted_env_def
      example_env_def keyboard_interrupt_def isinstance_def)

subsection \<open>Suppressed alerts\<close>

lemma action_loop_suppressed:
  assumes "is_suppressed a"
    and "for_loop (take_action_step env cfg) ps (PAlert a, action, tx, timeout, False) = (tr, c)"
  shows "tr = [] \<and> loop_exit c = Inr (PAlert a, action, tx, timeout, False)"
  using assms by (cases ps) (auto simp: take_action_step_def)

lemma status_loop_suppressed:
  assumes "is_suppressed a"
    and "for_loop (status_change_step env cfg) ps (PAlert a, status, tx, False) = (tr, c)"
  shows "tr = [] \<and> loop_exit c = Inr (PAlert a, status, tx, False)"
  using assms by (cases ps) (auto simp: status_change_step_def)

lemma pre_loop_suppressed:
  assumes "is_suppressed a" and "ps \<noteq> []"
  shows "for_loop (pre_receive_step env cfg) ps (PAlert a, False) = ([], Break (PAlert a, True))"
  using assms by (cases ps) (simp_all add: pre_receive_step_def)

lemma post_loop_skipped:
  assumes "for_loop (post_receive_step env cfg True) ps (PAlert a, False) = (tr, c)"
  shows "tr = [] \<and> loop_exit c = Inr (PAlert a, False)"
  using assms by (cases ps) (auto simp: post_receive_step_def)

lemma lifecycle_events:
  "filter hook_or_resync (fst (lifecycle env v)) = []"
  by (simp add: lifecycle_def split: pyval.splits sum.splits option.splits)

lemma post_phase_skipped: "post_phase env True a = ([], Inr (PAlert a))"
proof -
  obtain ps cfg where r: "routing env a = (ps, cfg)" by (cases "routing env a")
  obtain tr c where l: "for_loop (post_receive_step env cfg True) ps (PAlert a, False) = (tr, c)"
    by (cases "for_loop (post_receive_step env cfg True) ps (PAlert a, False)")
  from post_loop_skipped [OF l] show ?thesis using post_phase_exit [OF r l] by simp
qed

text \<open>
  Claim C1, as the code has it. When the alert is suppressed on entry, \<open>process_action\<close>
  and \<open>process_status\<close> call nothing at all and return the alert and the other
  arguments as they were given, for every plugin chain. \<open>process_alert\<close>, when its
  pre-receive chain is not empty, calls no hook and makes no resync either, but it does
  run the lifecycle resolution on the alert as given: what it returns is the alert that
  \<open>deduplicate\<close>, \<open>update\<close> or \<open>create\<close> returned, or the \<open>ApiError\<close> of that stage.
\<close>

theorem suppressed_at_entry:
  assumes "is_suppressed alert0"
  shows "process_action env alert0 action tx timeout =
           ([], Inr (PAlert alert0, action, tx, timeout)) \<and>
         process_status env alert0 status tx = ([], Inr (PAlert alert0, status, tx)) \<and>
         (fst (routing env alert0) \<noteq> [] \<longrightarrow>
            process_alert env alert0 =
              (fst (lifecycle env (PAlert alert0)),
               case snd (lifecycle env (PAlert alert0)) of
                 Inl e \<Rightarrow> Inl e | Inr alert2 \<Rightarrow> Inr (PAlert alert2)) \<and>
            filter hook_or_resync (fst (process_alert env alert0)) = [])"
proof (intro conjI impI)
  obtain ps cfg where r: "routing env alert0 = (ps, cfg)" by (cases "routing env alert0")
  obtain tr c where l: "for_loop (take_action_step env cfg) ps
      (PAlert alert0, action, tx, timeout, False) = (tr, c)"
    by (cases "for_loop (take_action_step env cfg) ps (PAlert alert0, action, tx, timeout, False)")
  from action_loop_suppressed [OF assms l]
  show "process_action env alert0 action tx timeout =
           ([], Inr (PAlert alert0, action, tx, timeout))"
    using process_action_exit [OF r l] by simp
  obtain tr' c' where l': "for_loop (status_change_step env cfg) ps
      (PAlert alert0, status, tx, False) = (tr', c')"
    by (cases "for_loop (status_change_step env cfg) ps (PAlert alert0, status, tx, False)")
  from status_loop_suppressed [OF assms l']
  show "process_status env alert0 status tx = ([], Inr (PAlert alert0, status, tx))"
    using process_status_exit [OF r l'] by simp
  assume "fst (routing env alert0) \<noteq> []"
  with r have "ps \<noteq> []" by simp
  then have loop: "for_loop (pre_receive_step env cfg) ps (PAlert alert0, False) =
      ([], Break (PAlert alert0, True))"
    by (rule pre_loop_suppressed [OF assms])
  obtain tr2 r2 where lc: "lifecycle env (PAlert alert0) = (tr2, r2)"
    by (cases "lifecycle env (PAlert alert0)")
  have pre: "pre_phase env alert0 =
      (case r2 of Inl e \<Rightarrow> (tr2, Inl e) | Inr alert2 \<Rightarrow> (tr2, Inr (alert2, True)))"
    using pre_phase_exit [OF r loop] by (simp add: lc split: sum.splits)
  show res: "process_alert env alert0 =
      (fst (lifecycle env (PAlert alert0)),
       case snd (lifecycle env (PAlert alert0)) of
         Inl e \<Rightarrow> Inl e | Inr alert2 \<Rightarrow> Inr (PAlert alert2))"
    by (cases r2) (simp_all add: process_alert_def pre lc post_phase_skipped)
  show "filter hook_or_resync (fst (process_alert env alert0)) = []"
    unfolding res by (simp add: lifecycle_events)
qed

lemmas suppressed_defs = suppressed_alert_def storing_env_def rerouting_env_def example_env_def
  example_alert_def touch_plugin_def

theorem suppressed_at_entry_witness:
  "is_suppressed suppressed_alert \<and>
   process_action (storing_env [touch_plugin]) suppressed_alert (PStr ''ack'') (PStr ''seen'') (PInt 30) =
     ([], Inr (PAlert suppressed_alert, PStr ''ack'', PStr ''seen'', PInt 30)) \<and>
   process_status (storing_env [touch_plugin]) suppressed_alert (PStr ''closed'') (PStr ''done'') =
     ([], Inr (PAlert suppressed_alert, PStr ''closed'', PStr ''done'')) \<and>
   fst (routing (storing_env [touch_plugin]) suppressed_alert) \<noteq> [] \<and>
   process_alert (storing_env [touch_plugin]) suppressed_alert =
     ([IsDuplicate, IsCorrelated, Create], Inr (PAlert (suppressed_alert\<lparr>ident := ''stored''\<rparr>))) \<and>
   filter hook_or_resync (fst (process_alert (storing_env [touch_plugin]) suppressed_alert)) = []"
  using suppressed_at_entry [where ?alert0.0 = suppressed_alert
      and env = "storing_env [touch_plugin]" and action = "PStr ''ack''" and tx = "PStr ''seen''"
      and timeout = "PInt 30"]
    suppressed_at_entry [where ?alert0.0 = suppressed_alert
      and env = "storing_env [touch_plugin]" and status = "PStr ''closed''" and tx = "PStr ''done''"]
  by (simp add: suppressed_defs lifecycle_def)

text \<open>
  The alert \<open>process_alert\<close> returns for a suppressed alert need not be the alert it
  was given; and with an empty pre-receive chain the flag \<open>skip_plugins\<close> is never set,
  so that the post-receive hooks of a suppressed alert run and the resync is made.
\<close>

theorem suppressed_at_entry_counterexample:
  "is_suppressed suppressed_alert \<and>
   process_alert (storing_env [touch_plugin]) suppressed_alert =
     ([IsDuplicate, IsCorrelated, Create], Inr (PAlert (suppressed_alert\<lparr>ident := ''stored''\<rparr>))) \<and>
   suppressed_alert\<lparr>ident := ''stored''\<rparr> \<noteq> suppressed_alert \<and>
   process_alert rerouting_env suppressed_alert =
     ([IsDuplicate, IsCorrelated, Create, Invoke ''touch'' PostReceive WithConfig,
       UpdateTags [''prod''], UpdateAttributes [(''ip'', ''10.0.0.1'')]],
      Inr (PAlert (suppressed_alert\<lparr>ident := ''stored''\<rparr>)))"
  by (simp add: suppressed_defs process_alert_def pre_phase_def post_phase_def lifecycle_def
      pre_receive_step_def post_receive_step_def post_updated_def resync_def)

subsection \<open>The delete verdict\<close>

lemma invoked_append: "invoked (xs @ ys) = invoked xs @ invoked ys"
  by (induction xs rule: invoked.induct) simp_all

lemma delete_step_cases:
  "delete_step env cfg alert p d0 = (ev, c) \<Longrightarrow>
     (\<exists>e. c = Raise e) \<or>
     (\<exists>d. c = Next d \<and> DeleteAlert \<notin> set ev \<and>
          invoked ev = (if truthy d0 then [name p] else []) \<and>
          (truthy d \<longleftrightarrow> truthy d0 \<and> verdict_ok cfg alert p))"
  by (auto simp: delete_step_def verdict_ok_def split: if_splits sum.splits)

lemma delete_loop:
  "for_loop (delete_step env cfg alert) ps d0 = (tr, c) \<Longrightarrow> loop_exit c = Inr d \<Longrightarrow>
     (truthy d \<longleftrightarrow> truthy d0 \<and> list_all (verdict_ok cfg alert) ps) \<and>
     invoked tr = (if truthy d0 then delete_invoked cfg alert ps else []) \<and>
     DeleteAlert \<notin> set tr"
proof (induction ps arbitrary: d0 tr c)
  case Nil
  then show ?case by auto
next
  case (Cons p ps)
  obtain ev c1 where st: "delete_step env cfg alert p d0 = (ev, c1)"
    by (cases "delete_step env cfg alert p d0")
  from delete_step_cases [OF st] show ?case
  proof
    assume "\<exists>e. c1 = Raise e"
    with Cons.prems st show ?thesis by auto
  next
    assume "\<exists>d. c1 = Next d \<and> DeleteAlert \<notin> set ev \<and>
          invoked ev = (if truthy d0 then [name p] else []) \<and>
          (truthy d \<longleftrightarrow> truthy d0 \<and> verdict_ok cfg alert p)"
    then obtain d1 where c1: "c1 = Next d1" and nd: "DeleteAlert \<notin> set ev"
      and inv: "invoked ev = (if truthy d0 then [name p] else [])"
      and tr1: "truthy d1 \<longleftrightarrow> truthy d0 \<and> verdict_ok cfg alert p"
      by blast
    obtain tr' c' where rest: "for_loop (delete_step env cfg alert) ps d1 = (tr', c')"
      by (cases "for_loop (delete_step env cfg alert) ps d1")
    from Cons.prems st c1 rest have tr: "tr = ev @ tr'" and c: "c = c'" by auto
    from Cons.IH [OF rest] Cons.prems(2) c
    have ih: "(truthy d \<longleftrightarrow> truthy d1 \<and> list_all (verdict_ok cfg alert) ps) \<and>
        invoked tr' = (if truthy d1 then delete_invoked cfg alert ps else []) \<and>
        DeleteAlert \<notin> set tr'"
      by simp
    show ?thesis
      using ih nd inv tr1 by (auto simp: tr invoked_append)
  qed
qed


lemma delete_loop_denied:
  "\<not> truthy d0 \<Longrightarrow> for_loop (delete_step env cfg alert) qs d0 = ([], Next d0)"
  by (induction qs) (simp_all add: delete_step_def)

text \<open>
  Claim C2, as the code has it. In \<open>process_delete\<close>, when no exception leaves the
  loop: the hooks invoked are those of the plugins up to and including the first that
  returns a falsy verdict, in order, since \<open>delete and plugin.delete(...)\<close> does not
  call the hook once \<open>delete\<close> is falsy; from a falsy running verdict the rest of the
  chain makes no call and leaves the verdict as it is. The combined verdict is truthy
  exactly when no plugin of the chain returns a falsy verdict (true for the empty chain),
  and \<open>alert.delete()\<close> is called, once and after the loop, exactly when the combined
  verdict is truthy.
\<close>

theorem delete_verdict:
  assumes "routing env alert = (ps, cfg)"
    and "for_loop (delete_step env cfg alert) ps (PBool True) = (tr, c)"
    and "loop_exit c = Inr d"
  shows "(truthy d \<longleftrightarrow> list_all (verdict_ok cfg alert) ps) \<and>
         invoked tr = delete_invoked cfg alert ps \<and>
         DeleteAlert \<notin> set tr \<and>
         process_delete env alert =
           (if truthy d then
              (tr @ [DeleteAlert],
               case delete_alert env alert of Inl e \<Rightarrow> Inl e | Inr b \<Rightarrow> Inr (PBool b))
            else (tr, Inr d)) \<and>
         (\<not> truthy d0 \<longrightarrow> for_loop (delete_step env cfg alert) qs d0 = ([], Next d0))"
proof -
  from delete_loop [OF assms(2,3)]
  have "(truthy d \<longleftrightarrow> list_all (verdict_ok cfg alert) ps) \<and>
      invoked tr = delete_invoked cfg alert ps \<and> DeleteAlert \<notin> set tr"
    by simp
  moreover have "process_delete env alert =
      (if truthy d then
         (tr @ [DeleteAlert],
          case delete_alert env alert of Inl e \<Rightarrow> Inl e | Inr b \<Rightarrow> Inr (PBool b))
       else (tr, Inr d))"
    using process_delete_exit [OF assms(1,2)] assms(3) by (simp split: sum.splits)
  ultimately show ?thesis by (simp add: delete_loop_denied)
qed

lemmas delete_defs = example_env_def example_alert_def plugin_base_def deny_plugin_def
  allow_plugin_def delete_step_def verdict_ok_def raise_exn_def isinstance_def

theorem delete_verdict_witness:
  "process_delete (example_env [deny_plugin, allow_plugin] True) example_alert =
     ([Invoke ''deny'' Delete WithConfig], Inr (PBool False)) \<and>
   invoked [Invoke ''deny'' Delete WithConfig] =
     delete_invoked ''cfg'' example_alert [deny_plugin, allow_plugin] \<and>
   \<not> list_all (verdict_ok ''cfg'' example_alert) [deny_plugin, allow_plugin] \<and>
   for_loop (delete_step (example_env [deny_plugin, allow_plugin] True) ''cfg'' example_alert)
     [allow_plugin] (PBool False) = ([], Next (PBool False)) \<and>
   process_delete (example_env [allow_plugin, plugin_base ''other''] True) example_alert =
     ([Invoke ''allow'' Delete WithConfig, Invoke ''other'' Delete WithConfig, DeleteAlert],
      Inr (PBool True)) \<and>
   list_all (verdict_ok ''cfg'' example_alert) [allow_plugin, plugin_base ''other'']"
proof -
  have denied:
    "for_loop (delete_step (example_env [deny_plugin, allow_plugin] True) ''cfg'' example_alert)
       [deny_plugin, allow_plugin] (PBool True) =
     ([Invoke ''deny'' Delete WithConfig], Next (PBool False))"
    by (simp add: delete_defs)
  have allowed:
    "for_loop (delete_step (example_env [allow_plugin, plugin_base ''other''] True) ''cfg'' example_alert)
       [allow_plugin, plugin_base ''other''] (PBool True) =
     ([Invoke ''allow'' Delete WithConfig, Invoke ''other'' Delete WithConfig], Next (PBool True))"
    by (simp add: delete_defs)
  show ?thesis
    using delete_verdict [where env = "example_env [deny_plugin, allow_plugin] True"
        and alert = example_alert and ps = "[deny_plugin, allow_plugin]" and cfg = "''cfg''"
        and tr = "[Invoke ''deny'' Delete WithConfig]" and c = "Next (PBool False)"
        and d = "PBool False" and ?d0.0 = "PBool False" and qs = "[allow_plugin]", OF _ denied]
      delete_verdict [where env = "example_env [allow_plugin, plugin_base ''other''] True"
        and alert = example_alert and ps = "[allow_plugin, plugin_base ''other'']" and cfg = "''cfg''"
        and tr = "[Invoke ''allow'' Delete WithConfig, Invoke ''other'' Delete WithConfig]"
        and c = "Next (PBool True)" and d = "PBool True" and ?d0.0 = "PBool False" and qs = "[]",
        OF _ allowed]
    by (simp add: example_env_def)
qed

text \<open>
  A chain of a plugin that denies and a plugin that would allow: the hook of the second
  is not invoked.
\<close>

theorem delete_verdict_counterexample:
  "process_delete (example_env [deny_plugin, allow_plugin] True) example_alert =
     ([Invoke ''deny'' Delete WithConfig], Inr (PBool False)) \<and>
   delete allow_plugin (PAlert example_alert) ''cfg'' = Inr (PBool True) \<and>
   Invoke ''allow'' Delete WithConfig \<notin>
     set (fst (process_delete (example_env [deny_plugin, allow_plugin] True) example_alert))"
  by (simp add: process_delete_def delete_defs)

subsection \<open>Control signals\<close>









lemma process_action_abort:
  assumes "routing env a0 = (ps @ p # qs, cfg)"
    and "for_loop (take_action_step env cfg) ps (PAlert a0, action0, text0, timeout0, False) = (tr, Next s)"
    and "take_action_step env cfg p s = (ev, Raise e)"
  shows "process_action env a0 action0 text0 timeout0 = (tr @ ev, Inl e)"
  using process_action_exit [OF assms(1) for_loop_abort [OF assms(2,3)]] by simp

lemma process_note_abort:
  assumes "routing env a0 = (ps @ p # qs, cfg)"
    and "for_loop (take_note_step env cfg) ps (PAlert a0, text0, False) = (tr, Next s)"
    and "take_note_step env cfg p s = (ev, Raise e)"
  shows "process_note env a0 text0 = (tr @ ev, Inl e)"
  using process_note_exit [OF assms(1) for_loop_abort [OF assms(2,3)]] by simp

lemma process_status_abort:
  assumes "routing env a0 = (ps @ p # qs, cfg)"
    and "for_loop (status_change_step env cfg) ps (PAlert a0, status0, text0, False) = (tr, Next s)"
    and "status_change_step env cfg p s = (ev, Raise e)"
  shows "process_status env a0 status0 text0 = (tr @ ev, Inl e)"
  using process_status_exit [OF assms(1) for_loop_abort [OF assms(2,3)]] by simp

lemma process_delete_abort:
  assumes "routing env a0 = (ps @ p # qs, cfg)"
    and "for_loop (delete_step env cfg a0) ps (PBool True) = (tr, Next s)"
    and "delete_step env cfg a0 p s = (ev, Raise e)"
  shows "process_delete env a0 = (tr @ ev, Inl e)"
  using process_delete_exit [OF assms(1) for_loop_abort [OF assms(2,3)]] by simp

lemma process_alert_pre_abort:
  assumes "routing env a0 = (ps @ p # qs, cfg)"
    and "for_loop (pre_receive_step env cfg) ps (PAlert a0, False) = (tr, Next s)"
    and "pre_receive_step env cfg p s = (ev, Raise e)"
  shows "process_alert env a0 = (tr @ ev, Inl e)"
  using pre_phase_exit [OF assms(1) for_loop_abort [OF assms(2,3)]]
  by (simp add: process_alert_def)

lemma process_alert_post_abort:
  assumes "pre_phase env a0 = (tr0, Inr (a2, skip))"
    and "routing env a2 = (ps @ p # qs, cfg)"
    and "for_loop (post_receive_step env cfg skip) ps (PAlert a2, False) = (tr, Next s)"
    and "post_receive_step env cfg skip p s = (ev, Raise e)"
  shows "process_alert env a0 = (tr0 @ tr @ ev, Inl e)"
  using post_phase_exit [OF assms(2) for_loop_abort [OF assms(3,4)]] assms(1)
  by (simp add: process_alert_def)











subsection \<open>Generic faults\<close>

lemma pre_receive_step_fault:
  assumes "getattr_is_suppressed alert = Inr False"
    and "pre_receive p alert (Some cfg) = Inl e"
    and "generic_fault PreReceive e"
  shows "pre_receive_step env cfg p (alert, skip) =
           (if raise_on_error env then
              ([Invoke (name p) PreReceive WithConfig], Raise (wrapped PreReceive p e))
            else (logged PreReceive p e, Next (alert, skip)))"
proof -
  from assms(1) have "truthy alert" by (cases alert) simp_all
  with assms show ?thesis
    by (simp add: pre_receive_step_def pre_received_def generic_fault_def wrapped_def logged_def)
qed

lemma post_receive_step_fault:
  assumes "post_receive p alert (Some cfg) = Inl e"
    and "generic_fault PostReceive e"
  shows "post_receive_step env cfg False p (alert, upd) =
           (if raise_on_error env then
              ([Invoke (name p) PostReceive WithConfig], Raise (wrapped PostReceive p e))
            else (logged PostReceive p e, Next (alert, upd)))"
  using assms
  by (simp add: post_receive_step_def post_updated_def generic_fault_def wrapped_def logged_def)

lemma take_action_step_fault:
  assumes "getattr_is_suppressed alert = Inr False"
    and "take_action p alert action tx timeout cfg = Inl e"
    and "generic_fault TakeAction e"
  shows "take_action_step env cfg p (alert, action, tx, timeout, upd) =
           (if raise_on_error env then
              ([Invoke (name p) TakeAction WithConfig], Raise (wrapped TakeAction p e))
            else (logged TakeAction p e, Next (alert, action, tx, timeout, upd)))"
  using assms
  by (simp add: take_action_step_def action_updated_def generic_fault_def wrapped_def logged_def)

lemma take_note_step_fault:
  assumes "take_note p alert tx cfg = Inl e"
    and "generic_fault TakeNote e"
  shows "take_note_step env cfg p (alert, tx, upd) =
           (if raise_on_error env then
              ([Invoke (name p) TakeNote WithConfig], Raise (wrapped TakeNote p e))
            else (logged TakeNote p e, Next (alert, tx, upd)))"
  using assms
  by (simp add: take_note_step_def note_updated_def generic_fault_def wrapped_def logged_def)

lemma status_change_step_fault:
  assumes "getattr_is_suppressed alert = Inr False"
    and "status_change p alert status tx (Some cfg) = Inl e"
    and "generic_fault StatusChange e"
  shows "status_change_step env cfg p (alert, status, tx, upd) =
           (if raise_on_error env then
              ([Invoke (name p) StatusChange WithConfig], Raise (wrapped StatusChange p e))
            else (logged StatusChange p e, Next (alert, status, tx, upd)))"
  using assms
  by (simp add: status_change_step_def status_updated_def generic_fault_def wrapped_def logged_def)

lemma delete_step_fault:
  assumes "truthy d"
    and "delete p (PAlert alert) cfg = Inl e"
    and "generic_fault Delete e"
  shows "delete_step env cfg alert p d =
           (if raise_on_error env then
              ([Invoke (name p) Delete WithConfig], Raise (wrapped Delete p e))
            else (logged Delete p e, Next d))"
  using assms
  by (simp add: delete_step_def generic_fault_def wrapped_def logged_def)

lemma pre_receive_step_invokes:
  "getattr_is_suppressed alert = Inr False \<Longrightarrow>
   take 1 (fst (pre_receive_step env cfg q (alert, skip))) = [Invoke (name q) PreReceive WithConfig]"
  by (simp add: pre_receive_step_def pre_received_def split: sum.splits)

lemma post_receive_step_invokes:
  "take 1 (fst (post_receive_step env cfg False q (alert, upd))) =
     [Invoke (name q) PostReceive WithConfig]"
  by (simp add: post_receive_step_def split: sum.splits)

lemma take_action_step_invokes:
  "getattr_is_suppressed alert = Inr False \<Longrightarrow>
   take 1 (fst (take_action_step env cfg q (alert, action, tx, timeout, upd))) =
     [Invoke (name q) TakeAction WithConfig]"
  by (simp add: take_action_step_def split: sum.splits)

lemma take_note_step_invokes:
  "take 1 (fst (take_note_step env cfg q (alert, tx, upd))) = [Invoke (name q) TakeNote WithConfig]"
  by (simp add: take_note_step_def split: sum.splits)

lemma status_change_step_invokes:
  "getattr_is_suppressed alert = Inr False \<Longrightarrow>
   take 1 (fst (status_change_step env cfg q (alert, status, tx, upd))) =
     [Invoke (name q) StatusChange WithConfig]"
  by (simp add: status_change_step_def split: sum.splits)

lemma delete_step_invokes:
  "truthy d \<Longrightarrow>
   take 1 (fst (delete_step env cfg alert q d)) = [Invoke (name q) Delete WithConfig]"
  by (simp add: delete_step_def split: sum.splits)

lemma process_alert_pre_fault:
  assumes "routing env a0 = (ps @ p # qs, cfg)"
    and "for_loop (pre_receive_step env cfg) ps (PAlert a0, False) = (tr, Next (alert, skip))"
    and "getattr_is_suppressed alert = Inr False"
    and "pre_receive p alert (Some cfg) = Inl e"
    and "generic_fault PreReceive e"
  shows "(if raise_on_error env then
     fst (process_alert env a0) = tr @ [Invoke (name p) PreReceive WithConfig] \<and>
     raised_message (snd (process_alert env a0)) =
       Some (error_message (stage_name PreReceive) p e)
   else
     continues_from (pre_receive_step env cfg) (ps @ p # qs) (PAlert a0, False)
       (tr @ logged PreReceive p e) qs (alert, skip) \<and>
     take 1 (fst (pre_receive_step env cfg q (alert, skip))) = [Invoke (name q) PreReceive WithConfig])"
proof (cases "raise_on_error env")
  case True
  then have "pre_receive_step env cfg p (alert, skip) =
      ([Invoke (name p) PreReceive WithConfig], Raise (wrapped PreReceive p e))"
    using pre_receive_step_fault [OF assms(3,4,5)] by simp
  from process_alert_pre_abort [OF assms(1,2) this] True show ?thesis
    by (simp add: raised_message_def wrapped_def raise_exn_def)
next
  case False
  then have "pre_receive_step env cfg p (alert, skip) = (logged PreReceive p e, Next (alert, skip))"
    using pre_receive_step_fault [OF assms(3,4,5)] by simp
  from for_loop_continue [OF assms(2) this] False pre_receive_step_invokes [OF assms(3)]
  show ?thesis by (simp add: continues_from_def)
qed

lemma process_alert_post_fault:
  assumes "pre_phase env a0 = (tr0, Inr (a2, False))"
    and "routing env a2 = (ps @ p # qs, cfg)"
    and "for_loop (post_receive_step env cfg False) ps (PAlert a2, False) = (tr, Next (alert, upd))"
    and "post_receive p alert (Some cfg) = Inl e"
    and "generic_fault PostReceive e"
  shows "(if raise_on_error env then
     process_alert env a0 =
       (tr0 @ tr @ [Invoke (name p) PostReceive WithConfig], Inl (wrapped PostReceive p e))
   else
     continues_from (post_receive_step env cfg False) (ps @ p # qs) (PAlert a2, False)
       (tr @ logged PostReceive p e) qs (alert, upd) \<and>
     take 1 (fst (post_receive_step env cfg False q (alert, upd))) = [Invoke (name q) PostReceive WithConfig])"
proof (cases "raise_on_error env")
  case True
  then have "post_receive_step env cfg False p (alert, upd) =
      ([Invoke (name p) PostReceive WithConfig], Raise (wrapped PostReceive p e))"
    using post_receive_step_fault [OF assms(4,5)] by simp
  from process_alert_post_abort [OF assms(1,2,3) this] True show ?thesis by simp
next
  case False
  then have "post_receive_step env cfg False p (alert, upd) = (logged PostReceive p e, Next (alert, upd))"
    using post_receive_step_fault [OF assms(4,5)] by simp
  from for_loop_continue [OF assms(3) this] False post_receive_step_invokes
  show ?thesis by (simp add: continues_from_def)
qed

lemma process_action_fault:
  assumes "routing env a0 = (ps @ p # qs, cfg)"
    and "for_loop (take_action_step env cfg) ps (PAlert a0, action0, text0, timeout0, False) = (tr, Next (alert, action, tx, timeout, upd))"
    and "getattr_is_suppressed alert = Inr False"
    and "take_action p alert action tx timeout cfg = Inl e"
    and "generic_fault TakeAction e"
  shows "(if raise_on_error env then
     process_action env a0 action0 text0 timeout0 =
       (tr @ [Invoke (name p) TakeAction WithConfig], Inl (wrapped TakeAction p e))
   else
     continues_from (take_action_step env cfg) (ps @ p # qs) (PAlert a0, action0, text0, timeout0, False)
       (tr @ logged TakeAction p e) qs (alert, action, tx, timeout, upd) \<and>
     take 1 (fst (take_action_step env cfg q (alert, action, tx, timeout, upd))) = [Invoke (name q) TakeAction WithConfig])"
proof (cases "raise_on_error env")
  case True
  then have "take_action_step env cfg p (alert, action, tx, timeout, upd) =
      ([Invoke (name p) TakeAction WithConfig], Raise (wrapped TakeAction p e))"
    using take_action_step_fault [OF assms(3,4,5)] by simp
  from process_action_abort [OF assms(1,2) this] True show ?thesis by simp
next
  case False
  then have "take_action_step env cfg p (alert, action, tx, timeout, upd) = (logged TakeAction p e, Next (alert, action, tx, timeout, upd))"
    using take_action_step_fault [OF assms(3,4,5)] by simp
  from for_loop_continue [OF assms(2) this] False take_action_step_invokes [OF assms(3)]
  show ?thesis by (simp add: continues_from_def)
qed

lemma process_note_fault:
  assumes "routing env a0 = (ps @ p # qs, cfg)"
    and "for_loop (take_note_step env cfg) ps (PAlert a0, text0, False) = (tr, Next (alert, tx, upd))"
    and "take_note p alert tx cfg = Inl e"
    and "generic_fault TakeNote e"
  shows "(if raise_on_error env then
     process_note env a0 text0 =
       (tr @ [Invoke (name p) TakeNote WithConfig], Inl (wrapped TakeNote p e))
   else
     continues_from (take_note_step env cfg) (ps @ p # qs) (PAlert a0, text0, False)
       (tr @ logged TakeNote p e) qs (alert, tx, upd) \<and>
     take 1 (fst (take_note_step env cfg q (alert, tx, upd))) = [Invoke (name q) TakeNote WithConfig])"
proof (cases "raise_on_error env")
  case True
  then have "take_note_step env cfg p (alert, tx, upd) =
      ([Invoke (name p) TakeNote WithConfig], Raise (wrapped TakeNote p e))"
    using take_note_step_fault [OF assms(3,4)] by simp
  from process_note_abort [OF assms(1,2) this] True show ?thesis by simp
next
  case False
  then have "take_note_step env cfg p (alert, tx, upd) = (logged TakeNote p e, Next (alert, tx, upd))"
    using take_note_step_fault [OF assms(3,4)] by simp
  from for_loop_continue [OF assms(2) this] False take_note_step_invokes
  show ?thesis by (simp add: continues_from_def)
qed

lemma process_status_fault:
  assumes "routing env a0 = (ps @ p # qs, cfg)"
    and "for_loop (status_change_step env cfg) ps (PAlert a0, status0, text0, False) = (tr, Next (alert, status, tx, upd))"
    and "getattr_is_suppressed alert = Inr False"
    and "status_change p alert status tx (Some cfg) = Inl e"
    and "generic_fault StatusChange e"
  shows "(if raise_on_error env then
     process_status env a0 status0 text0 =
       (tr @ [Invoke (name p) StatusChange WithConfig], Inl (wrapped StatusChange p e))
   else
     continues_from (status_change_step env cfg) (ps @ p # qs) (PAlert a0, status0, text0, False)
       (tr @ logged StatusChange p e) qs (alert, status, tx, upd) \<and>
     take 1 (fst (status_change_step env cfg q (alert, status, tx, upd))) = [Invoke (name q) StatusChange WithConfig])"
proof (cases "raise_on_error env")
  case True
  then have "status_change_step env cfg p (alert, status, tx, upd) =
      ([Invoke (name p) StatusChange WithConfig], Raise (wrapped StatusChange p e))"
    using status_change_step_fault [OF assms(3,4,5)] by simp
  from process_status_abort [OF assms(1,2) this] True show ?thesis by simp
next
  case False
  then have "status_change_step env cfg p (alert, status, tx, upd) = (logged StatusChange p e, Next (alert, status, tx, upd))"
    using status_change_step_fault [OF assms(3,4,5)] by simp
  from for_loop_continue [OF assms(2) this] False status_change_step_invokes [OF assms(3)]
  show ?thesis by (simp add: continues_from_def)
qed

lemma process_delete_fault:
  assumes "routing env a0 = (ps @ p # qs, cfg)"
    and "for_loop (delete_step env cfg a0) ps (PBool True) = (tr, Next d)"
    and "truthy d"
    and "delete p (PAlert a0) cfg = Inl e"
    and "generic_fault Delete e"
  shows "(if raise_on_error env then
     process_delete env a0 =
       (tr @ [Invoke (name p) Delete WithConfig], Inl (wrapped Delete p e))
   else
     continues_from (delete_step env cfg a0) (ps @ p # qs) (PBool True)
       (tr @ logged Delete p e) qs d \<and>
     take 1 (fst (delete_step env cfg a0 q d)) = [Invoke (name q) Delete WithConfig])"
proof (cases "raise_on_error env")
  case True
  then have "delete_step env cfg a0 p d =
      ([Invoke (name p) Delete WithConfig], Raise (wrapped Delete p e))"
    using delete_step_fault [OF assms(3,4,5)] by simp
  from process_delete_abort [OF assms(1,2) this] True show ?thesis by simp
next
  case False
  then have "delete_step env cfg a0 p d = (logged Delete p e, Next d)"
    using delete_step_fault [OF assms(3,4,5)] by simp
  from for_loop_continue [OF assms(2) this] False delete_step_invokes [OF assms(3)]
  show ?thesis by (simp add: continues_from_def)
qed

text \<open>
  Claim C4, as the code has it. In each of the six plugin loops, let the loop have
  passed the plugins \<open>ps\<close> and reach plugin \<open>p\<close> with its hook being called, and let the
  call (made with \<open>config\<close>) raise a generic fault \<open>e\<close>: an instance of \<open>Exception\<close>
  that the re-raising clause does not name and that is not a \<open>TypeError\<close>
  (pre-receive, post-receive, status) or a \<open>NotImplementedError\<close> (action, note,
  delete). With \<open>PLUGINS_RAISE_ON_ERROR\<close> set, the pipeline raises an error whose
  message names the stage and the plugin and ends with \<open>str(e)\<close>, and nothing is called
  after the hook; in the post-receive, action, note, status and delete stages the error
  is an \<open>ApiError\<close>. Otherwise the message is logged, the running state is the one that
  entered the call, the loop goes on with the plugins \<open>qs\<close> from that state, and the
  hook of a plugin reached in that state is invoked.
\<close>

theorem generic_fault_policy:
  "(routing env a0 = (ps @ p # qs, cfg) \<and>
    for_loop (pre_receive_step env cfg) ps (PAlert a0, False) = (tr, Next (alert, skip)) \<and>
    getattr_is_suppressed alert = Inr False \<and>
    pre_receive p alert (Some cfg) = Inl e \<and>
    generic_fault PreReceive e \<longrightarrow>
   (if raise_on_error env then
        fst (process_alert env a0) = tr @ [Invoke (name p) PreReceive WithConfig] \<and>
        raised_message (snd (process_alert env a0)) =
          Some (error_message (stage_name PreReceive) p e)
      else
        continues_from (pre_receive_step env cfg) (ps @ p # qs) (PAlert a0, False)
          (tr @ logged PreReceive p e) qs (alert, skip) \<and>
        take 1 (fst (pre_receive_step env cfg q (alert, skip))) = [Invoke (name q) PreReceive WithConfig])) \<and>
   (pre_phase env a0 = (tr0, Inr (a2, False)) \<and>
    routing env a2 = (ps @ p # qs, cfg) \<and>
    for_loop (post_receive_step env cfg False) ps (PAlert a2, False) = (tr, Next (alert, upd)) \<and>
    post_receive p alert (Some cfg) = Inl e \<and>
    generic_fault PostReceive e \<longrightarrow>
   (if raise_on_error env then
        process_alert env a0 =
          (tr0 @ tr @ [Invoke (name p) PostReceive WithConfig], Inl (wrapped PostReceive p e))
      else
        continues_from (post_receive_step env cfg False) (ps @ p # qs) (PAlert a2, False)
          (tr @ logged PostReceive p e) qs (alert, upd) \<and>
        take 1 (fst (post_receive_step env cfg False q (alert, upd))) = [Invoke (name q) PostReceive WithConfig])) \<and>
   (routing env a0 = (ps @ p # qs, cfg) \<and>
    for_loop (take_action_step env cfg) ps (PAlert a0, action0, text0, timeout0, False) = (tr, Next (alert, action, tx, timeout, upd)) \<and>
    getattr_is_suppressed alert = Inr False \<and>
    take_action p alert action tx timeout cfg = Inl e \<and>
    generic_fault TakeAction e \<longrightarrow>
   (if raise_on_error env then
        process_action env a0 action0 text0 timeout0 =
          (tr @ [Invoke (name p) TakeAction WithConfig], Inl (wrapped TakeAction p e))
      else
        continues_from (take_action_step env cfg) (ps @ p # qs) (PAlert a0, action0, text0, timeout0, False)
          (tr @ logged TakeAction p e) qs (alert, action, tx, timeout, upd) \<and>
        take 1 (fst (take_action_step env cfg q (alert, action, tx, timeout, upd))) = [Invoke (name q) TakeAction WithConfig])) \<and>
   (routing env a0 = (ps @ p # qs, cfg) \<and>
    for_loop (take_note_step env cfg) ps (PAlert a0, text0, False) = (tr, Next (alert, tx, upd)) \<and>
    take_note p alert tx cfg = Inl e \<and>
    generic_fault TakeNote e \<longrightarrow>
   (if raise_on_error env then
        process_note env a0 text0 =
          (tr @ [Invoke (name p) TakeNote WithConfig], Inl (wrapped TakeNote p e))
      else
        continues_from (take_note_step env cfg) (ps @ p # qs) (PAlert a0, text0, False)
          (tr @ logged TakeNote p e) qs (alert, tx, upd) \<and>
        take 1 (fst (take_note_step env cfg q (alert, tx, upd))) = [Invoke (name q) TakeNote WithConfig])) \<and>
   (routing env a0 = (ps @ p # qs, cfg) \<and>
    for_loop (status_change_step env cfg) ps (PAlert a0, status0, text0, False) = (tr, Next (alert, status, tx, upd)) \<and>
    getattr_is_suppressed alert = Inr False \<and>
    status_change p alert status tx (Some cfg) = Inl e \<and>
    generic_fault StatusChange e \<longrightarrow>
   (if raise_on_error env then
        process_status env a0 status0 text0 =
          (tr @ [Invoke (name p) StatusChange WithConfig], Inl (wrapped StatusChange p e))
      else
        continues_from (status_change_step env cfg) (ps @ p # qs) (PAlert a0, status0, text0, False)
          (tr @ logged StatusChange p e) qs (alert, status, tx, upd) \<and>
        take 1 (fst (status_change_step env cfg q (alert, status, tx, upd))) = [Invoke (name q) StatusChange WithConfig])) \<and>
   (routing env a0 = (ps @ p # qs, cfg) \<and>
    for_loop (delete_step env cfg a0) ps (PBool True) = (tr, Next d) \<and>
    truthy d \<and>
    delete p (PAlert a0) cfg = Inl e \<and>
    generic_fault Delete e \<longrightarrow>
   (if raise_on_error env then
        process_delete env a0 =
          (tr @ [Invoke (name p) Delete WithConfig], Inl (wrapped Delete p e))
      else
        continues_from (delete_step env cfg a0) (ps @ p # qs) (PBool True)
          (tr @ logged Delete p e) qs d \<and>
        take 1 (fst (delete_step env cfg a0 q d)) = [Invoke (name q) Delete WithConfig]))"
  by (intro conjI impI; elim conjE)
     (erule (4) process_alert_pre_fault,
      erule (4) process_alert_post_fault,
      erule (4) process_action_fault,
      erule (3) process_note_fault,
      erule (4) process_status_fault,
      erule (4) process_delete_fault)

lemmas fault_defs = bad_value_def broken_plugin_def late_broken_plugin_def broken_chain_def
  late_broken_chain_def touch_plugin_def plugin_base_def example_env_def example_alert_def
  isinstance_def isinstance_any_def generic_fault_def wrapped_def logged_def continues_from_def
  error_message_def raise_exn_def
  pre_receive_step_def pre_received_def post_receive_step_def post_updated_def
  take_action_step_def action_updated_def take_note_step_def note_updated_def
  status_change_step_def status_updated_def delete_step_def pre_phase_def lifecycle_def

theorem generic_fault_policy_witness:
  "fst (process_alert (example_env broken_chain True) example_alert) =
     [Invoke ''touch'' PreReceive WithConfig, Invoke ''broken'' PreReceive WithConfig] \<and>
   raised_message (snd (process_alert (example_env broken_chain True) example_alert)) =
     Some ''Error while running pre-receive plugin 'broken': bad value'' \<and>
   for_loop (pre_receive_step (example_env broken_chain False) ''cfg'') broken_chain (PAlert example_alert, False) =
     ([Invoke ''touch'' PreReceive WithConfig, Invoke ''broken'' PreReceive WithConfig,
       LogError ''Error while running pre-receive plugin 'broken': bad value'',
       Invoke ''touch'' PreReceive WithConfig],
      Next (PAlert example_alert, False)) \<and>
   process_alert (example_env late_broken_chain True) example_alert =
     ([Invoke ''touch'' PreReceive WithConfig, Invoke ''late'' PreReceive WithConfig,
         Invoke ''touch'' PreReceive WithConfig, IsDuplicate, IsCorrelated, Create,
         Invoke ''touch'' PostReceive WithConfig, Invoke ''late'' PostReceive WithConfig],
      Inl (raise_exn ApiError ''Error while running post-receive plugin 'late': bad value'')) \<and>
   for_loop (post_receive_step (example_env late_broken_chain False) ''cfg'' False) late_broken_chain (PAlert example_alert, False) =
     ([Invoke ''touch'' PostReceive WithConfig, Invoke ''late'' PostReceive WithConfig,
       LogError ''Error while running post-receive plugin 'late': bad value'',
       Invoke ''touch'' PostReceive WithConfig],
      Next (PAlert example_alert, True)) \<and>
   process_action (example_env broken_chain True) example_alert (PStr ''ack'') (PStr ''seen'') PNone =
     ([Invoke ''touch'' TakeAction WithConfig, Invoke ''broken'' TakeAction WithConfig],
      Inl (raise_exn ApiError ''Error while running action plugin 'broken': bad value'')) \<and>
   for_loop (take_action_step (example_env broken_chain False) ''cfg'') broken_chain (PAlert example_alert, PStr ''ack'', PStr ''seen'', PNone, False) =
     ([Invoke ''touch'' TakeAction WithConfig, Invoke ''broken'' TakeAction WithConfig,
       LogError ''Error while running action plugin 'broken': bad value'',
       Invoke ''touch'' TakeAction WithConfig],
      Next (PAlert example_alert, PStr ''ack'', PStr ''seen'', PNone, True)) \<and>
   process_note (example_env broken_chain True) example_alert (PStr ''seen'') =
     ([Invoke ''touch'' TakeNote WithConfig, Invoke ''broken'' TakeNote WithConfig],
      Inl (raise_exn ApiError ''Error while running note plugin 'broken': bad value'')) \<and>
   for_loop (take_note_step (example_env broken_chain False) ''cfg'') broken_chain (PAlert example_alert, PStr ''seen'', False) =
     ([Invoke ''touch'' TakeNote WithConfig, Invoke ''broken'' TakeNote WithConfig,
       LogError ''Error while running note plugin 'broken': bad value'',
       Invoke ''touch'' TakeNote WithConfig],
      Next (PAlert example_alert, PStr ''seen'', True)) \<and>
   process_status (example_env broken_chain True) example_alert (PStr ''closed'') (PStr ''seen'') =
     ([Invoke ''touch'' StatusChange WithConfig, Invoke ''broken'' StatusChange WithConfig],
      Inl (raise_exn ApiError ''Error while running status plugin 'broken': bad value'')) \<and>
   for_loop (status_change_step (example_env broken_chain False) ''cfg'') broken_chain (PAlert example_alert, PStr ''closed'', PStr ''seen'', False) =
     ([Invoke ''touch'' StatusChange WithConfig, Invoke ''broken'' StatusChange WithConfig,
       LogError ''Error while running status plugin 'broken': bad value'',
       Invoke ''touch'' StatusChange WithConfig],
      Next (PAlert example_alert, PStr ''closed'', PStr ''seen'', True)) \<and>
   process_delete (example_env broken_chain True) example_alert =
     ([Invoke ''touch'' Delete WithConfig, Invoke ''broken'' Delete WithConfig],
      Inl (raise_exn ApiError ''Error while running delete plugin 'broken': bad value'')) \<and>
   for_loop (delete_step (example_env broken_chain False) ''cfg'' example_alert) broken_chain (PBool True) =
     ([Invoke ''touch'' Delete WithConfig, Invoke ''broken'' Delete WithConfig,
       LogError ''Error while running delete plugin 'broken': bad value'',
       Invoke ''touch'' Delete WithConfig],
      Next (PBool True))"
proof -
  have strict_pre_receive: "fst (process_alert (example_env broken_chain True) example_alert) =
     [Invoke ''touch'' PreReceive WithConfig, Invoke ''broken'' PreReceive WithConfig] \<and>
   raised_message (snd (process_alert (example_env broken_chain True) example_alert)) =
     Some ''Error while running pre-receive plugin 'broken': bad value''"
    using generic_fault_policy [where env = "example_env broken_chain True" and ?a0.0 = example_alert
        and ps = "[touch_plugin]" and p = broken_plugin and qs = "[touch_plugin]" and q = touch_plugin
        and cfg = "''cfg''" and tr = "[Invoke ''touch'' PreReceive WithConfig]" and e = bad_value
        and alert = "PAlert example_alert" and skip = False]
    by (simp add: fault_defs)
  have lenient_pre_receive: "for_loop (pre_receive_step (example_env broken_chain False) ''cfg'') broken_chain (PAlert example_alert, False) =
     ([Invoke ''touch'' PreReceive WithConfig, Invoke ''broken'' PreReceive WithConfig,
       LogError ''Error while running pre-receive plugin 'broken': bad value'',
       Invoke ''touch'' PreReceive WithConfig],
      Next (PAlert example_alert, False))"
    using generic_fault_policy [where env = "example_env broken_chain False" and ?a0.0 = example_alert
        and ps = "[touch_plugin]" and p = broken_plugin and qs = "[touch_plugin]" and q = touch_plugin
        and cfg = "''cfg''" and tr = "[Invoke ''touch'' PreReceive WithConfig]" and e = bad_value
        and alert = "PAlert example_alert" and skip = False]
    by (simp add: fault_defs)
  have strict_post_receive: "process_alert (example_env late_broken_chain True) example_alert =
     ([Invoke ''touch'' PreReceive WithConfig, Invoke ''late'' PreReceive WithConfig,
         Invoke ''touch'' PreReceive WithConfig, IsDuplicate, IsCorrelated, Create,
         Invoke ''touch'' PostReceive WithConfig, Invoke ''late'' PostReceive WithConfig],
      Inl (raise_exn ApiError ''Error while running post-receive plugin 'late': bad value''))"
    using generic_fault_policy [where env = "example_env late_broken_chain True" and ?a0.0 = example_alert
        and ps = "[touch_plugin]" and p = late_broken_plugin and qs = "[touch_plugin]" and q = touch_plugin
        and cfg = "''cfg''" and tr = "[Invoke ''touch'' PostReceive WithConfig]" and e = bad_value
        and ?tr0.0 = "[Invoke ''touch'' PreReceive WithConfig, Invoke ''late'' PreReceive WithConfig,
         Invoke ''touch'' PreReceive WithConfig, IsDuplicate, IsCorrelated, Create]"
        and alert = "PAlert example_alert" and upd = True and ?a2.0 = example_alert]
    by (simp add: fault_defs)
  have lenient_post_receive: "for_loop (post_receive_step (example_env late_broken_chain False) ''cfg'' False) late_broken_chain (PAlert example_alert, False) =
     ([Invoke ''touch'' PostReceive WithConfig, Invoke ''late'' PostReceive WithConfig,
       LogError ''Error while running post-receive plugin 'late': bad value'',
       Invoke ''touch'' PostReceive WithConfig],
      Next (PAlert example_alert, True))"
    using generic_fault_policy [where env = "example_env late_broken_chain False" and ?a0.0 = example_alert
        and ps = "[touch_plugin]" and p = late_broken_plugin and qs = "[touch_plugin]" and q = touch_plugin
        and cfg = "''cfg''" and tr = "[Invoke ''touch'' PostReceive WithConfig]" and e = bad_value
        and ?tr0.0 = "[Invoke ''touch'' PreReceive WithConfig, Invoke ''late'' PreReceive WithConfig,
         Invoke ''touch'' PreReceive WithConfig, IsDuplicate, IsCorrelated, Create]"
        and alert = "PAlert example_alert" and upd = True and ?a2.0 = example_alert]
    by (simp add: fault_defs)
  have strict_action: "process_action (example_env broken_chain True) example_alert (PStr ''ack'') (PStr ''seen'') PNone =
     ([Invoke ''touch'' TakeAction WithConfig, Invoke ''broken'' TakeAction WithConfig],
      Inl (raise_exn ApiError ''Error while running action plugin 'broken': bad value''))"
    using generic_fault_policy [where env = "example_env broken_chain True" and ?a0.0 = example_alert
        and ps = "[touch_plugin]" and p = broken_plugin and qs = "[touch_plugin]" and q = touch_plugin
        and cfg = "''cfg''" and tr = "[Invoke ''touch'' TakeAction WithConfig]" and e = bad_value
        and alert = "PAlert example_alert" and upd = True and ?action0.0 = "PStr ''ack''" and action = "PStr ''ack''"
        and ?text0.0 = "PStr ''seen''" and tx = "PStr ''seen''" and ?timeout0.0 = PNone and timeout = PNone]
    by (simp add: fault_defs)
  have lenient_action: "for_loop (take_action_step (example_env broken_chain False) ''cfg'') broken_chain (PAlert example_alert, PStr ''ack'', PStr ''seen'', PNone, False) =
     ([Invoke ''touch'' TakeAction WithConfig, Invoke ''broken'' TakeAction WithConfig,
       LogError ''Error while running action plugin 'broken': bad value'',
       Invoke ''touch'' TakeAction WithConfig],
      Next (PAlert example_alert, PStr ''ack'', PStr ''seen'', PNone, True))"
    using generic_fault_policy [where env = "example_env broken_chain False" and ?a0.0 = example_alert
        and ps = "[touch_plugin]" and p = broken_plugin and qs = "[touch_plugin]" and q = touch_plugin
        and cfg = "''cfg''" and tr = "[Invoke ''touch'' TakeAction WithConfig]" and e = bad_value
        and alert = "PAlert example_alert" and upd = True and ?action0.0 = "PStr ''ack''" and action = "PStr ''ack''"
        and ?text0.0 = "PStr ''seen''" and tx = "PStr ''seen''" and ?timeout0.0 = PNone and timeout = PNone]
    by (simp add: fault_defs)
  have strict_note: "process_note (example_env broken_chain True) example_alert (PStr ''seen'') =
     ([Invoke ''touch'' TakeNote WithConfig, Invoke ''broken'' TakeNote WithConfig],
      Inl (raise_exn ApiError ''Error while running note plugin 'broken': bad value''))"
    using generic_fault_policy [where env = "example_env broken_chain True" and ?a0.0 = example_alert
        and ps = "[touch_plugin]" and p = broken_plugin and qs = "[touch_plugin]" and q = touch_plugin
        and cfg = "''cfg''" and tr = "[Invoke ''touch'' TakeNote WithConfig]" and e = bad_value
        and alert = "PAlert example_alert" and upd = True and ?text0.0 = "PStr ''seen''" and tx = "PStr ''seen''"]
    by (simp add: fault_defs)
  have lenient_note: "for_loop (take_note_step (example_env broken_chain False) ''cfg'') broken_chain (PAlert example_alert, PStr ''seen'', False) =
     ([Invoke ''touch'' TakeNote WithConfig, Invoke ''broken'' TakeNote WithConfig,
       LogError ''Error while running note plugin 'broken': bad value'',
       Invoke ''touch'' TakeNote WithConfig],
      Next (PAlert example_alert, PStr ''seen'', True))"
    using generic_fault_policy [where env = "example_env broken_chain False" and ?a0.0 = example_alert
        and ps = "[touch_plugin]" and p = broken_plugin and qs = "[touch_plugin]" and q = touch_plugin
        and cfg = "''cfg''" and tr = "[Invoke ''touch'' TakeNote WithConfig]" and e = bad_value
        and alert = "PAlert example_alert" and upd = True and ?text0.0 = "PStr ''seen''" and tx = "PStr ''seen''"]
    by (simp add: fault_defs)
  have strict_status: "process_status (example_env broken_chain True) example_alert (PStr ''closed'') (PStr ''seen'') =
     ([Invoke ''touch'' StatusChange WithConfig, Invoke ''broken'' StatusChange WithConfig],
      Inl (raise_exn ApiError ''Error while running status plugin 'broken': bad value''))"
    using generic_fault_policy [where env = "example_env broken_chain True" and ?a0.0 = example_alert
        and ps = "[touch_plugin]" and p = broken_plugin and qs = "[touch_plugin]" and q = touch_plugin
        and cfg = "''cfg''" and tr = "[Invoke ''touch'' StatusChange WithConfig]" and e = bad_value
        and alert = "PAlert example_alert" and upd = True and ?status0.0 = "PStr ''closed''" and status = "PStr ''closed''"
        and ?text0.0 = "PStr ''seen''" and tx = "PStr ''seen''"]
    by (simp add: fault_defs)
  have lenient_status: "for_loop (status_change_step (example_env broken_chain False) ''cfg'') broken_chain (PAlert example_alert, PStr ''closed'', PStr ''seen'', False) =
     ([Invoke ''touch'' StatusChange WithConfig, Invoke ''broken'' StatusChange WithConfig,
       LogError ''Error while running status plugin 'broken': bad value'',
       Invoke ''touch'' StatusChange WithConfig],
      Next (PAlert example_alert, PStr ''closed'', PStr ''seen'', True))"
    using generic_fault_policy [where env = "example_env broken_chain False" and ?a0.0 = example_alert
        and ps = "[touch_plugin]" and p = broken_plugin and qs = "[touch_plugin]" and q = touch_plugin
        and cfg = "''cfg''" and tr = "[Invoke ''touch'' StatusChange WithConfig]" and e = bad_value
        and alert = "PAlert example_alert" and upd = True and ?status0.0 = "PStr ''closed''" and status = "PStr ''closed''"
        and ?text0.0 = "PStr ''seen''" and tx = "PStr ''seen''"]
    by (simp add: fault_defs)
  have strict_delete: "process_delete (example_env broken_chain True) example_alert =
     ([Invoke ''touch'' Delete WithConfig, Invoke ''broken'' Delete WithConfig],
      Inl (raise_exn ApiError ''Error while running delete plugin 'broken': bad value''))"
    using generic_fault_policy [where env = "example_env broken_chain True" and ?a0.0 = example_alert
        and ps = "[touch_plugin]" and p = broken_plugin and qs = "[touch_plugin]" and q = touch_plugin
        and cfg = "''cfg''" and tr = "[Invoke ''touch'' Delete WithConfig]" and e = bad_value
        and d = "PBool True"]
    by (simp add: fault_defs)
  have lenient_delete: "for_loop (delete_step (example_env broken_chain False) ''cfg'' example_alert) broken_chain (PBool True) =
     ([Invoke ''touch'' Delete WithConfig, Invoke ''broken'' Delete WithConfig,
       LogError ''Error while running delete plugin 'broken': bad value'',
       Invoke ''touch'' Delete WithConfig],
      Next (PBool True))"
    using generic_fault_policy [where env = "example_env broken_chain False" and ?a0.0 = example_alert
        and ps = "[touch_plugin]" and p = broken_plugin and qs = "[touch_plugin]" and q = touch_plugin
        and cfg = "''cfg''" and tr = "[Invoke ''touch'' Delete WithConfig]" and e = bad_value
        and d = "PBool True"]
    by (simp add: fault_defs)
  from strict_pre_receive lenient_pre_receive strict_post_receive lenient_post_receive strict_action lenient_action strict_note lenient_note strict_status lenient_status strict_delete lenient_delete
  show ?thesis by simp
qed

text \<open>
  A \<open>TypeError\<close> is not handled by the policy. With \<open>PLUGINS_RAISE_ON_ERROR\<close> set, a
  status hook that raises \<open>TypeError\<close> when called with \<open>config\<close> is called again
  without it and no error is raised. Without the setting, a hook that raises
  \<open>TypeError\<close> in both shapes ends the pipeline with that \<open>TypeError\<close>: nothing is
  logged and the next plugin does not run.
\<close>

theorem generic_fault_policy_counterexample:
  "raise_on_error (example_env [legacy_plugin, touch_plugin] True) \<and>
   status_change legacy_plugin (PAlert example_alert) (PStr ''closed'') (PStr ''seen'') (Some ''cfg'') =
     Inl type_error \<and>
   process_status (example_env [legacy_plugin, touch_plugin] True) example_alert
       (PStr ''closed'') (PStr ''seen'') =
     ([Invoke ''legacy'' StatusChange WithConfig, Invoke ''legacy'' StatusChange WithoutConfig,
       Invoke ''touch'' StatusChange WithConfig,
       UpdateTags [''prod''], UpdateAttributes [(''ip'', ''10.0.0.1'')]],
      Inr (PAlert example_alert, PStr ''closed'', PStr ''seen'')) \<and>
   \<not> raise_on_error (example_env [type_bug_plugin, touch_plugin] False) \<and>
   process_status (example_env [type_bug_plugin, touch_plugin] False) example_alert
       (PStr ''closed'') (PStr ''seen'') =
     ([Invoke ''buggy'' StatusChange WithConfig, Invoke ''buggy'' StatusChange WithoutConfig],
      Inl type_error) \<and>
   process_alert (example_env [type_bug_plugin, touch_plugin] False) example_alert =
     ([Invoke ''buggy'' PreReceive WithConfig, Invoke ''buggy'' PreReceive WithoutConfig],
      Inl type_error)"
  by (simp add: process_status_def process_alert_def pre_phase_def resync_def
      example_env_def example_alert_def legacy_plugin_def type_bug_plugin_def touch_plugin_def
      plugin_base_def type_error_def isinstance_def
      status_change_step_def status_updated_def pre_receive_step_def)

subsection \<open>Falsy return values\<close>

lemma pre_receive_step_falsy:
  assumes "getattr_is_suppressed alert = Inr False"
    and "two_shape_return (pre_receive p alert) cfg = Some (shapes, r)"
    and "\<not> truthy r"
  shows "pre_receive_step env cfg p (alert, skip) =
           (map (Invoke (name p) PreReceive) shapes, Raise (no_alert_error p))"
  using assms
  by (auto simp: pre_receive_step_def pre_received_def two_shape_return_def no_alert_error_def
      split: sum.splits if_splits)

lemma post_receive_step_falsy:
  assumes "two_shape_return (post_receive p alert) cfg = Some (shapes, r)"
    and "\<not> truthy r"
  shows "post_receive_step env cfg False p (alert, upd) =
           (map (Invoke (name p) PostReceive) shapes, Next (alert, upd))"
  using assms
  by (auto simp: post_receive_step_def post_updated_def two_shape_return_def
      split: sum.splits if_splits)

lemma status_change_step_falsy:
  assumes "getattr_is_suppressed alert = Inr False"
    and "two_shape_return (status_change p alert status tx) cfg = Some (shapes, r)"
    and "\<not> truthy r"
  shows "status_change_step env cfg p (alert, status, tx, upd) =
           (map (Invoke (name p) StatusChange) shapes, Next (alert, status, tx, upd))"
  using assms
  by (auto simp: status_change_step_def status_updated_def two_shape_return_def
      split: sum.splits if_splits)

lemma action_updated_falsy:
  "\<not> truthy r \<Longrightarrow>
   action_updated r (alert, action, tx, timeout, upd) =
     (alert, action, tx, timeout, upd \<or> r = PTuple [])"
  by (cases r) (simp_all add: action_updated_def)

lemma take_action_step_falsy:
  assumes "getattr_is_suppressed alert = Inr False"
    and "take_action p alert action tx timeout cfg = Inr r"
    and "\<not> truthy r"
  shows "take_action_step env cfg p (alert, action, tx, timeout, upd) =
           ([Invoke (name p) TakeAction WithConfig],
            Next (alert, action, tx, timeout, upd \<or> r = PTuple []))"
  using assms by (simp add: take_action_step_def action_updated_falsy)

lemma process_alert_falsy:
  assumes "routing env a0 = (ps @ p # qs, cfg)"
    and "for_loop (pre_receive_step env cfg) ps (PAlert a0, False) = (tr, Next (alert, skip))"
    and "getattr_is_suppressed alert = Inr False"
    and "two_shape_return (pre_receive p alert) cfg = Some (shapes, r)"
    and "\<not> truthy r"
  shows "process_alert env a0 =
           (tr @ map (Invoke (name p) PreReceive) shapes, Inl (no_alert_error p))"
  by (rule process_alert_pre_abort [OF assms(1,2) pre_receive_step_falsy [OF assms(3,4,5)]])

lemma post_loop_falsy:
  assumes "for_loop (post_receive_step env cfg False) ps s0 = (tr, Next (alert, upd))"
    and "two_shape_return (post_receive p alert) cfg = Some (shapes, r)"
    and "\<not> truthy r"
  shows "continues_from (post_receive_step env cfg False) (ps @ p # qs) s0
           (tr @ map (Invoke (name p) PostReceive) shapes) qs (alert, upd)"
  using for_loop_continue [OF assms(1) post_receive_step_falsy [OF assms(2,3)]]
  by (simp add: continues_from_def)

lemma status_loop_falsy:
  assumes "for_loop (status_change_step env cfg) ps s0 = (tr, Next (alert, status, tx, upd))"
    and "getattr_is_suppressed alert = Inr False"
    and "two_shape_return (status_change p alert status tx) cfg = Some (shapes, r)"
    and "\<not> truthy r"
  shows "continues_from (status_change_step env cfg) (ps @ p # qs) s0
           (tr @ map (Invoke (name p) StatusChange) shapes) qs (alert, status, tx, upd)"
  using for_loop_continue [OF assms(1) status_change_step_falsy [OF assms(2,3,4)]]
  by (simp add: continues_from_def)

lemma action_loop_falsy:
  assumes "for_loop (take_action_step env cfg) ps s0 = (tr, Next (alert, action, tx, timeout, upd))"
    and "getattr_is_suppressed alert = Inr False"
    and "take_action p alert action tx timeout cfg = Inr r"
    and "\<not> truthy r"
  shows "continues_from (take_action_step env cfg) (ps @ p # qs) s0
           (tr @ [Invoke (name p) TakeAction WithConfig]) qs
           (alert, action, tx, timeout, upd \<or> r = PTuple [])"
  using for_loop_continue [OF assms(1) take_action_step_falsy [OF assms(2,3,4)]]
  by (simp add: continues_from_def)

text \<open>
  Claim C6, as the code has it. Only the pre-receive loop requires an alert back: when a
  pre-receive hook returns a falsy value, \<open>process_alert\<close> raises the \<open>SyntaxError\<close>
  that names the plugin, with nothing called after the hook, whatever
  \<open>PLUGINS_RAISE_ON_ERROR\<close> is. In the post-receive, action and status loops a falsy
  return raises nothing: the loop goes on with the following plugins from the alert and
  the other fields that entered the call (in the action loop an empty tuple, which is
  falsy, still sets the mutated flag).
\<close>

theorem falsy_return:
  "(routing env a0 = (ps @ p # qs, cfg) \<and>
    for_loop (pre_receive_step env cfg) ps (PAlert a0, False) = (tr, Next (alert, skip)) \<and>
    getattr_is_suppressed alert = Inr False \<and>
    two_shape_return (pre_receive p alert) cfg = Some (shapes, r) \<and> \<not> truthy r \<longrightarrow>
      process_alert env a0 =
        (tr @ map (Invoke (name p) PreReceive) shapes, Inl (no_alert_error p))) \<and>
   (for_loop (post_receive_step env cfg False) ps sR = (tr, Next (alert, upd)) \<and>
    two_shape_return (post_receive p alert) cfg = Some (shapes, r) \<and> \<not> truthy r \<longrightarrow>
      continues_from (post_receive_step env cfg False) (ps @ p # qs) sR
        (tr @ map (Invoke (name p) PostReceive) shapes) qs (alert, upd)) \<and>
   (for_loop (take_action_step env cfg) ps sA = (tr, Next (alert, action, tx, timeout, upd)) \<and>
    getattr_is_suppressed alert = Inr False \<and>
    take_action p alert action tx timeout cfg = Inr r \<and> \<not> truthy r \<longrightarrow>
      continues_from (take_action_step env cfg) (ps @ p # qs) sA
        (tr @ [Invoke (name p) TakeAction WithConfig]) qs
        (alert, action, tx, timeout, upd \<or> r = PTuple [])) \<and>
   (for_loop (status_change_step env cfg) ps sS = (tr, Next (alert, status, tx, upd)) \<and>
    getattr_is_suppressed alert = Inr False \<and>
    two_shape_return (status_change p alert status tx) cfg = Some (shapes, r) \<and> \<not> truthy r \<longrightarrow>
      continues_from (status_change_step env cfg) (ps @ p # qs) sS
        (tr @ map (Invoke (name p) StatusChange) shapes) qs (alert, status, tx, upd))"
  by (intro conjI impI; elim conjE)
     (erule (4) process_alert_falsy, erule (2) post_loop_falsy,
      erule (3) action_loop_falsy, erule (3) status_loop_falsy)

lemmas falsy_defs = quiet_plugin_def quiet_chain_def touch_plugin_def example_env_def
  example_alert_def two_shape_return_def no_alert_error_def continues_from_def raise_exn_def
  pre_receive_step_def pre_received_def post_receive_step_def post_updated_def
  take_action_step_def action_updated_def status_change_step_def status_updated_def

theorem falsy_return_witness:
  "process_alert (example_env quiet_chain False) example_alert =
     ([Invoke ''touch'' PreReceive WithConfig, Invoke ''quiet'' PreReceive WithConfig],
      Inl (raise_exn SyntaxError ''Plugin 'quiet' pre-receive hook did not return modified alert'')) \<and>
   for_loop (post_receive_step (example_env quiet_chain True) ''cfg'' False) quiet_chain
       (PAlert example_alert, False) =
     ([Invoke ''touch'' PostReceive WithConfig, Invoke ''quiet'' PostReceive WithConfig,
       Invoke ''touch'' PostReceive WithConfig],
      Next (PAlert example_alert, True)) \<and>
   for_loop (take_action_step (example_env quiet_chain True) ''cfg'') quiet_chain
       (PAlert example_alert, PStr ''ack'', PStr ''seen'', PNone, False) =
     ([Invoke ''touch'' TakeAction WithConfig, Invoke ''quiet'' TakeAction WithConfig,
       Invoke ''touch'' TakeAction WithConfig],
      Next (PAlert example_alert, PStr ''ack'', PStr ''seen'', PNone, True)) \<and>
   for_loop (status_change_step (example_env quiet_chain True) ''cfg'') quiet_chain
       (PAlert example_alert, PStr ''closed'', PStr ''seen'', False) =
     ([Invoke ''touch'' StatusChange WithConfig, Invoke ''quiet'' StatusChange WithConfig,
       Invoke ''touch'' StatusChange WithConfig],
      Next (PAlert example_alert, PStr ''closed'', PStr ''seen'', True))"
proof -
  have pre: "process_alert (example_env quiet_chain False) example_alert =
     ([Invoke ''touch'' PreReceive WithConfig, Invoke ''quiet'' PreReceive WithConfig],
      Inl (raise_exn SyntaxError ''Plugin 'quiet' pre-receive hook did not return modified alert''))"
    using falsy_return [where env = "example_env quiet_chain False" and ?a0.0 = example_alert
        and ps = "[touch_plugin]" and p = quiet_plugin and qs = "[touch_plugin]" and cfg = "''cfg''"
        and tr = "[Invoke ''touch'' PreReceive WithConfig]" and alert = "PAlert example_alert"
        and skip = False and shapes = "[WithConfig]" and r = PNone, THEN conjunct1]
    by (simp add: falsy_defs)
  have post: "for_loop (post_receive_step (example_env quiet_chain True) ''cfg'' False) quiet_chain
       (PAlert example_alert, False) =
     ([Invoke ''touch'' PostReceive WithConfig, Invoke ''quiet'' PostReceive WithConfig,
       Invoke ''touch'' PostReceive WithConfig],
      Next (PAlert example_alert, True))"
    using falsy_return [where env = "example_env quiet_chain True"
        and ps = "[touch_plugin]" and p = quiet_plugin and qs = "[touch_plugin]" and cfg = "''cfg''"
        and sR = "(PAlert example_alert, False)"
        and tr = "[Invoke ''touch'' PostReceive WithConfig]" and alert = "PAlert example_alert"
        and upd = True and shapes = "[WithConfig]" and r = PNone,
        THEN conjunct2, THEN conjunct1]
    by (simp add: falsy_defs)
  have action: "for_loop (take_action_step (example_env quiet_chain True) ''cfg'') quiet_chain
       (PAlert example_alert, PStr ''ack'', PStr ''seen'', PNone, False) =
     ([Invoke ''touch'' TakeAction WithConfig, Invoke ''quiet'' TakeAction WithConfig,
       Invoke ''touch'' TakeAction WithConfig],
      Next (PAlert example_alert, PStr ''ack'', PStr ''seen'', PNone, True))"
    using falsy_return [where env = "example_env quiet_chain True"
        and ps = "[touch_plugin]" and p = quiet_plugin and qs = "[touch_plugin]" and cfg = "''cfg''"
        and sA = "(PAlert example_alert, PStr ''ack'', PStr ''seen'', PNone, False)"
        and tr = "[Invoke ''touch'' TakeAction WithConfig]" and alert = "PAlert example_alert"
        and action = "PStr ''ack''" and tx = "PStr ''seen''" and timeout = PNone
        and upd = True and r = PNone,
        THEN conjunct2, THEN conjunct2, THEN conjunct1]
    by (simp add: falsy_defs)
  have status: "for_loop (status_change_step (example_env quiet_chain True) ''cfg'') quiet_chain
       (PAlert example_alert, PStr ''closed'', PStr ''seen'', False) =
     ([Invoke ''touch'' StatusChange WithConfig, Invoke ''quiet'' StatusChange WithConfig,
       Invoke ''touch'' StatusChange WithConfig],
      Next (PAlert example_alert, PStr ''closed'', PStr ''seen'', True))"
    using falsy_return [where env = "example_env quiet_chain True"
        and ps = "[touch_plugin]" and p = quiet_plugin and qs = "[touch_plugin]" and cfg = "''cfg''"
        and sS = "(PAlert example_alert, PStr ''closed'', PStr ''seen'', False)"
        and tr = "[Invoke ''touch'' StatusChange WithConfig]" and alert = "PAlert example_alert"
        and status = "PStr ''closed''" and tx = "PStr ''seen''"
        and upd = True and shapes = "[WithConfig]" and r = PNone,
        THEN conjunct2, THEN conjunct2, THEN conjunct2]
    by (simp add: falsy_defs)
  from pre post action status show ?thesis by simp
qed

text \<open>
  An action hook and a status hook that return \<open>None\<close>: the pipelines go on to the next
  plugin and return normally, under either policy.
\<close>

theorem falsy_return_counterexample:
  "take_action quiet_plugin (PAlert example_alert) (PStr ''ack'') (PStr ''seen'') PNone ''cfg'' =
     Inr PNone \<and>
   process_action (example_env [quiet_plugin, touch_plugin] True) example_alert
       (PStr ''ack'') (PStr ''seen'') PNone =
     ([Invoke ''quiet'' TakeAction WithConfig, Invoke ''touch'' TakeAction WithConfig,
       UpdateTags [''prod''], UpdateAttributes [(''ip'', ''10.0.0.1'')]],
      Inr (PAlert example_alert, PStr ''ack'', PStr ''seen'', PNone)) \<and>
   process_status (example_env [quiet_plugin, touch_plugin] False) example_alert
       (PStr ''closed'') (PStr ''seen'') =
     ([Invoke ''quiet'' StatusChange WithConfig, Invoke ''touch'' StatusChange WithConfig,
       UpdateTags [''prod''], UpdateAttributes [(''ip'', ''10.0.0.1'')]],
      Inr (PAlert example_alert, PStr ''closed'', PStr ''seen''))"
  by (simp add: process_action_def process_status_def resync_def quiet_plugin_def touch_plugin_def
      example_env_def example_alert_def take_action_step_def action_updated_def
      status_change_step_def status_updated_def)

subsection \<open>Hooks that are not implemented\<close>

lemma action_loop_not_implemented:
  assumes "for_loop (take_action_step env cfg) ps s0 = (tr, Next (alert, action, tx, timeout, upd))"
    and "getattr_is_suppressed alert = Inr False"
    and "take_action p alert action tx timeout cfg = Inl e"
    and "isinstance e NotImplementedError"
  shows "continues_from (take_action_step env cfg) (ps @ p # qs) s0
           (tr @ [Invoke (name p) TakeAction WithConfig]) qs (alert, action, tx, timeout, upd)"
proof -
  have "take_action_step env cfg p (alert, action, tx, timeout, upd) =
      ([Invoke (name p) TakeAction WithConfig], Next (alert, action, tx, timeout, upd))"
    using assms(2,3,4) by (simp add: take_action_step_def action_updated_def)
  from for_loop_continue [OF assms(1) this] show ?thesis by (simp add: continues_from_def)
qed

lemma note_loop_not_implemented:
  assumes "for_loop (take_note_step env cfg) ps s0 = (tr, Next (alert, tx, upd))"
    and "take_note p alert tx cfg = Inl e"
    and "isinstance e NotImplementedError"
  shows "continues_from (take_note_step env cfg) (ps @ p # qs) s0
           (tr @ [Invoke (name p) TakeNote WithConfig]) qs (alert, tx, upd)"
proof -
  have "take_note_step env cfg p (alert, tx, upd) =
      ([Invoke (name p) TakeNote WithConfig], Next (alert, tx, upd))"
    using assms(2,3) by (simp add: take_note_step_def note_updated_def)
  from for_loop_continue [OF assms(1) this] show ?thesis by (simp add: continues_from_def)
qed

lemma delete_loop_not_implemented:
  assumes "for_loop (delete_step env cfg a0) ps s0 = (tr, Next d)"
    and "truthy d"
    and "delete p (PAlert a0) cfg = Inl e"
    and "isinstance e NotImplementedError"
  shows "continues_from (delete_step env cfg a0) (ps @ p # qs) s0
           (tr @ [Invoke (name p) Delete WithConfig]) qs d"
proof -
  have "delete_step env cfg a0 p d = ([Invoke (name p) Delete WithConfig], Next d)"
    using assms(2,3,4) by (simp add: delete_step_def)
  from for_loop_continue [OF assms(1) this] show ?thesis by (simp add: continues_from_def)
qed

text \<open>
  Claim C7, as the code has it. The action, note and delete loops have an
  \<open>except NotImplementedError: pass\<close> clause: when a hook raises
  \<open>NotImplementedError\<close>, nothing is raised and nothing is logged, the running state is
  the one that entered the call, and the loop goes on with the following plugins, under
  either policy. The pre-receive, post-receive and status loops have no such clause:
  there a \<open>NotImplementedError\<close> is a generic fault, wrapped and raised with
  \<open>PLUGINS_RAISE_ON_ERROR\<close> set and logged without it.
\<close>

theorem not_implemented_skip:
  "(for_loop (take_action_step env cfg) ps sA = (tr, Next (alert, action, tx, timeout, upd)) \<and>
    getattr_is_suppressed alert = Inr False \<and>
    take_action p alert action tx timeout cfg = Inl e \<and> isinstance e NotImplementedError \<longrightarrow>
      continues_from (take_action_step env cfg) (ps @ p # qs) sA
        (tr @ [Invoke (name p) TakeAction WithConfig]) qs (alert, action, tx, timeout, upd)) \<and>
   (for_loop (take_note_step env cfg) ps sN = (tr, Next (alert, tx, upd)) \<and>
    take_note p alert tx cfg = Inl e \<and> isinstance e NotImplementedError \<longrightarrow>
      continues_from (take_note_step env cfg) (ps @ p # qs) sN
        (tr @ [Invoke (name p) TakeNote WithConfig]) qs (alert, tx, upd)) \<and>
   (for_loop (delete_step env cfg a0) ps sD = (tr, Next d) \<and> truthy d \<and>
    delete p (PAlert a0) cfg = Inl e \<and> isinstance e NotImplementedError \<longrightarrow>
      continues_from (delete_step env cfg a0) (ps @ p # qs) sD
        (tr @ [Invoke (name p) Delete WithConfig]) qs d) \<and>
   (getattr_is_suppressed alert = Inr False \<and> pre_receive p alert (Some cfg) = Inl e \<and>
    isinstance e NotImplementedError \<and> generic_fault PreReceive e \<longrightarrow>
      pre_receive_step env cfg p (alert, skip) =
        (if raise_on_error env then
           ([Invoke (name p) PreReceive WithConfig], Raise (wrapped PreReceive p e))
         else (logged PreReceive p e, Next (alert, skip)))) \<and>
   (post_receive p alert (Some cfg) = Inl e \<and>
    isinstance e NotImplementedError \<and> generic_fault PostReceive e \<longrightarrow>
      post_receive_step env cfg False p (alert, upd) =
        (if raise_on_error env then
           ([Invoke (name p) PostReceive WithConfig], Raise (wrapped PostReceive p e))
         else (logged PostReceive p e, Next (alert, upd)))) \<and>
   (getattr_is_suppressed alert = Inr False \<and>
    status_change p alert status tx (Some cfg) = Inl e \<and>
    isinstance e NotImplementedError \<and> generic_fault StatusChange e \<longrightarrow>
      status_change_step env cfg p (alert, status, tx, upd) =
        (if raise_on_error env then
           ([Invoke (name p) StatusChange WithConfig], Raise (wrapped StatusChange p e))
         else (logged StatusChange p e, Next (alert, status, tx, upd))))"
proof (intro conjI impI; elim conjE)
  show "getattr_is_suppressed alert = Inr False \<Longrightarrow> pre_receive p alert (Some cfg) = Inl e \<Longrightarrow>
      isinstance e NotImplementedError \<Longrightarrow> generic_fault PreReceive e \<Longrightarrow>
      pre_receive_step env cfg p (alert, skip) =
        (if raise_on_error env then
           ([Invoke (name p) PreReceive WithConfig], Raise (wrapped PreReceive p e))
         else (logged PreReceive p e, Next (alert, skip)))"
    by (rule pre_receive_step_fault)
  show "post_receive p alert (Some cfg) = Inl e \<Longrightarrow>
      isinstance e NotImplementedError \<Longrightarrow> generic_fault PostReceive e \<Longrightarrow>
      post_receive_step env cfg False p (alert, upd) =
        (if raise_on_error env then
           ([Invoke (name p) PostReceive WithConfig], Raise (wrapped PostReceive p e))
         else (logged PostReceive p e, Next (alert, upd)))"
    by (rule post_receive_step_fault)
  show "getattr_is_suppressed alert = Inr False \<Longrightarrow>
      status_change p alert status tx (Some cfg) = Inl e \<Longrightarrow>
      isinstance e NotImplementedError \<Longrightarrow> generic_fault StatusChange e \<Longrightarrow>
      status_change_step env cfg p (alert, status, tx, upd) =
        (if raise_on_error env then
           ([Invoke (name p) StatusChange WithConfig], Raise (wrapped StatusChange p e))
         else (logged StatusChange p e, Next (alert, status, tx, upd)))"
    by (rule status_change_step_fault)
qed (erule (3) action_loop_not_implemented, erule (2) note_loop_not_implemented,
     erule (3) delete_loop_not_implemented)

lemmas not_implemented_defs = abstract_plugin_def abstract_chain_def touch_plugin_def
  example_env_def example_alert_def continues_from_def raise_exn_def isinstance_def
  isinstance_any_def generic_fault_def wrapped_def logged_def error_message_def
  take_action_step_def action_updated_def take_note_step_def note_updated_def delete_step_def

theorem not_implemented_skip_witness:
  "for_loop (take_action_step (example_env abstract_chain True) ''cfg'') abstract_chain
       (PAlert example_alert, PStr ''ack'', PStr ''seen'', PNone, False) =
     ([Invoke ''touch'' TakeAction WithConfig, Invoke ''abstract'' TakeAction WithConfig,
       Invoke ''touch'' TakeAction WithConfig],
      Next (PAlert example_alert, PStr ''ack'', PStr ''seen'', PNone, True)) \<and>
   for_loop (take_note_step (example_env abstract_chain True) ''cfg'') abstract_chain
       (PAlert example_alert, PStr ''seen'', False) =
     ([Invoke ''touch'' TakeNote WithConfig, Invoke ''abstract'' TakeNote WithConfig,
       Invoke ''touch'' TakeNote WithConfig],
      Next (PAlert example_alert, PStr ''seen'', True)) \<and>
   for_loop (delete_step (example_env abstract_chain True) ''cfg'' example_alert) abstract_chain
       (PBool True) =
     ([Invoke ''touch'' Delete WithConfig, Invoke ''abstract'' Delete WithConfig,
       Invoke ''touch'' Delete WithConfig],
      Next (PBool True)) \<and>
   pre_receive_step (example_env abstract_chain True) ''cfg'' abstract_plugin
       (PAlert example_alert, False) =
     ([Invoke ''abstract'' PreReceive WithConfig],
      Raise (raise_exn RuntimeError ''Error while running pre-receive plugin 'abstract': '')) \<and>
   post_receive_step (example_env abstract_chain False) ''cfg'' False abstract_plugin
       (PAlert example_alert, False) =
     ([Invoke ''abstract'' PostReceive WithConfig,
       LogError ''Error while running post-receive plugin 'abstract': ''],
      Next (PAlert example_alert, False)) \<and>
   status_change_step (example_env abstract_chain True) ''cfg'' abstract_plugin
       (PAlert example_alert, PStr ''closed'', PStr ''seen'', False) =
     ([Invoke ''abstract'' StatusChange WithConfig],
      Raise (raise_exn ApiError ''Error while running status plugin 'abstract': ''))"
proof -
  let ?e = "raise_exn NotImplementedError []"
  have action: "for_loop (take_action_step (example_env abstract_chain True) ''cfg'') abstract_chain
       (PAlert example_alert, PStr ''ack'', PStr ''seen'', PNone, False) =
     ([Invoke ''touch'' TakeAction WithConfig, Invoke ''abstract'' TakeAction WithConfig,
       Invoke ''touch'' TakeAction WithConfig],
      Next (PAlert example_alert, PStr ''ack'', PStr ''seen'', PNone, True))"
    using not_implemented_skip [where env = "example_env abstract_chain True" and cfg = "''cfg''"
        and ps = "[touch_plugin]" and p = abstract_plugin and qs = "[touch_plugin]"
        and sA = "(PAlert example_alert, PStr ''ack'', PStr ''seen'', PNone, False)"
        and tr = "[Invoke ''touch'' TakeAction WithConfig]" and alert = "PAlert example_alert"
        and action = "PStr ''ack''" and tx = "PStr ''seen''" and timeout = PNone and upd = True
        and e = ?e, THEN conjunct1]
    by (simp add: not_implemented_defs)
  have nte: "for_loop (take_note_step (example_env abstract_chain True) ''cfg'') abstract_chain
       (PAlert example_alert, PStr ''seen'', False) =
     ([Invoke ''touch'' TakeNote WithConfig, Invoke ''abstract'' TakeNote WithConfig,
       Invoke ''touch'' TakeNote WithConfig],
      Next (PAlert example_alert, PStr ''seen'', True))"
    using not_implemented_skip [where env = "example_env abstract_chain True" and cfg = "''cfg''"
        and ps = "[touch_plugin]" and p = abstract_plugin and qs = "[touch_plugin]"
        and sN = "(PAlert example_alert, PStr ''seen'', False)"
        and tr = "[Invoke ''touch'' TakeNote WithConfig]" and alert = "PAlert example_alert"
        and tx = "PStr ''seen''" and upd = True
        and e = ?e, THEN conjunct2, THEN conjunct1]
    by (simp add: not_implemented_defs)
  have del: "for_loop (delete_step (example_env abstract_chain True) ''cfg'' example_alert)
       abstract_chain (PBool True) =
     ([Invoke ''touch'' Delete WithConfig, Invoke ''abstract'' Delete WithConfig,
       Invoke ''touch'' Delete WithConfig],
      Next (PBool True))"
    using not_implemented_skip [where env = "example_env abstract_chain True" and cfg = "''cfg''"
        and ps = "[touch_plugin]" and p = abstract_plugin and qs = "[touch_plugin]"
        and sD = "PBool True" and ?a0.0 = example_alert
        and tr = "[Invoke ''touch'' Delete WithConfig]" and d = "PBool True"
        and e = ?e, THEN conjunct2, THEN conjunct2, THEN conjunct1]
    by (simp add: not_implemented_defs)
  have pre: "pre_receive_step (example_env abstract_chain True) ''cfg'' abstract_plugin
       (PAlert example_alert, False) =
     ([Invoke ''abstract'' PreReceive WithConfig],
      Raise (raise_exn RuntimeError ''Error while running pre-receive plugin 'abstract': ''))"
    using not_implemented_skip [where env = "example_env abstract_chain True" and cfg = "''cfg''"
        and p = abstract_plugin and alert = "PAlert example_alert" and skip = False
        and e = ?e, THEN conjunct2, THEN conjunct2, THEN conjunct2, THEN conjunct1]
    by (simp add: not_implemented_defs)
  have post: "post_receive_step (example_env abstract_chain False) ''cfg'' False abstract_plugin
       (PAlert example_alert, False) =
     ([Invoke ''abstract'' PostReceive WithConfig,
       LogError ''Error while running post-receive plugin 'abstract': ''],
      Next (PAlert example_alert, False))"
    using not_implemented_skip [where env = "example_env abstract_chain False" and cfg = "''cfg''"
        and p = abstract_plugin and alert = "PAlert example_alert" and upd = False
        and e = ?e, THEN conjunct2, THEN conjunct2, THEN conjunct2, THEN conjunct2,
        THEN conjunct1]
    by (simp add: not_implemented_defs)
  have status: "status_change_step (example_env abstract_chain True) ''cfg'' abstract_plugin
       (PAlert example_alert, PStr ''closed'', PStr ''seen'', False) =
     ([Invoke ''abstract'' StatusChange WithConfig],
      Raise (raise_exn ApiError ''Error while running status plugin 'abstract': ''))"
    using not_implemented_skip [where env = "example_env abstract_chain True" and cfg = "''cfg''"
        and p = abstract_plugin and alert = "PAlert example_alert" and status = "PStr ''closed''"
        and tx = "PStr ''seen''" and upd = False
        and e = ?e, THEN conjunct2, THEN conjunct2, THEN conjunct2, THEN conjunct2,
        THEN conjunct2]
    by (simp add: not_implemented_defs)
  from action nte del pre post status show ?thesis by simp
qed

text \<open>
  The delete pipeline skips a plugin whose \<open>delete\<close> raises \<open>NotImplementedError\<close>,
  silently, under both policies.
\<close>

theorem not_implemented_skip_counterexample:
  "delete abstract_plugin (PAlert example_alert) ''cfg'' = Inl (raise_exn NotImplementedError []) \<and>
   process_delete (example_env [abstract_plugin, allow_plugin] True) example_alert =
     ([Invoke ''abstract'' Delete WithConfig, Invoke ''allow'' Delete WithConfig, DeleteAlert],
      Inr (PBool True)) \<and>
   process_delete (example_env [abstract_plugin, allow_plugin] False) example_alert =
     ([Invoke ''abstract'' Delete WithConfig, Invoke ''allow'' Delete WithConfig, DeleteAlert],
      Inr (PBool True))"
  by (simp add: process_delete_def delete_step_def abstract_plugin_def allow_plugin_def
      plugin_base_def example_env_def example_alert_def raise_exn_def isinstance_def)

subsection \<open>Call shapes\<close>

lemma pre_receive_step_shapes:
  assumes "getattr_is_suppressed alert = Inr False"
  shows "shapes_of (fst (pre_receive_step env cfg p (alert, skip))) =
           attempted (pre_receive p alert (Some cfg))"
    and "pre_receive p alert (Some cfg) = Inl e \<Longrightarrow> isinstance e TypeError \<Longrightarrow>
         snd (pre_receive_step env cfg p (alert, skip)) =
           (case pre_receive p alert None of
              Inr r \<Rightarrow> snd (pre_received p [] r skip)
            | Inl e' \<Rightarrow> Raise e')"
  using assms
  by (auto simp: pre_receive_step_def pre_received_def attempted_def split: sum.splits)

lemma post_receive_step_shapes:
  shows "shapes_of (fst (post_receive_step env cfg False p (alert, upd))) =
           attempted (post_receive p alert (Some cfg))"
    and "post_receive p alert (Some cfg) = Inl e \<Longrightarrow> isinstance e TypeError \<Longrightarrow>
         snd (post_receive_step env cfg False p (alert, upd)) =
           (case post_receive p alert None of
              Inr r \<Rightarrow> Next (post_updated r (alert, upd))
            | Inl e' \<Rightarrow> Raise e')"
  by (auto simp: post_receive_step_def attempted_def split: sum.splits)

lemma status_change_step_shapes:
  assumes "getattr_is_suppressed alert = Inr False"
  shows "shapes_of (fst (status_change_step env cfg p (alert, status, tx, upd))) =
           attempted (status_change p alert status tx (Some cfg))"
    and "status_change p alert status tx (Some cfg) = Inl e \<Longrightarrow> isinstance e TypeError \<Longrightarrow>
         snd (status_change_step env cfg p (alert, status, tx, upd)) =
           (case status_change p alert status tx None of
              Inr r \<Rightarrow> Next (status_updated r (alert, status, tx, upd))
            | Inl e' \<Rightarrow> Raise e')"
  using assms
  by (auto simp: status_change_step_def attempted_def split: sum.splits)

lemma take_action_step_shapes:
  "getattr_is_suppressed alert = Inr False \<Longrightarrow>
   shapes_of (fst (take_action_step env cfg p (alert, action, tx, timeout, upd))) = [WithConfig]"
  by (simp add: take_action_step_def split: sum.splits)

lemma take_note_step_shapes:
  "shapes_of (fst (take_note_step env cfg p (alert, tx, upd))) = [WithConfig]"
  by (simp add: take_note_step_def split: sum.splits)

lemma delete_step_shapes:
  "truthy d \<Longrightarrow> shapes_of (fst (delete_step env cfg a0 p d)) = [WithConfig]"
  by (simp add: delete_step_def split: sum.splits)

text \<open>
  Claim C8, as the code has it. The pre-receive, post-receive and status hooks of a
  plugin that is reached are called with \<open>config\<close>; they are called once more, without
  it, exactly when that call raised a \<open>TypeError\<close>, and then the outcome of the second
  call is the outcome of the invocation (its value is what the hook returned, its
  exception leaves the pipeline). After any other outcome of the first call there is no
  second call. The action, note and delete hooks are called in one shape only, with
  \<open>config\<close>; a \<open>TypeError\<close> from them is a generic fault, subject to the policy.
\<close>

theorem call_shapes:
  "(getattr_is_suppressed alert = Inr False \<longrightarrow>
      shapes_of (fst (pre_receive_step env cfg p (alert, skip))) =
        attempted (pre_receive p alert (Some cfg)) \<and>
      (pre_receive p alert (Some cfg) = Inl e \<and> isinstance e TypeError \<longrightarrow>
         snd (pre_receive_step env cfg p (alert, skip)) =
           (case pre_receive p alert None of
              Inr r \<Rightarrow> snd (pre_received p [] r skip)
            | Inl e' \<Rightarrow> Raise e'))) \<and>
   shapes_of (fst (post_receive_step env cfg False p (alert, upd))) =
     attempted (post_receive p alert (Some cfg)) \<and>
   (post_receive p alert (Some cfg) = Inl e \<and> isinstance e TypeError \<longrightarrow>
      snd (post_receive_step env cfg False p (alert, upd)) =
        (case post_receive p alert None of
           Inr r \<Rightarrow> Next (post_updated r (alert, upd))
         | Inl e' \<Rightarrow> Raise e')) \<and>
   (getattr_is_suppressed alert = Inr False \<longrightarrow>
      shapes_of (fst (status_change_step env cfg p (alert, status, tx, upd))) =
        attempted (status_change p alert status tx (Some cfg)) \<and>
      (status_change p alert status tx (Some cfg) = Inl e \<and> isinstance e TypeError \<longrightarrow>
         snd (status_change_step env cfg p (alert, status, tx, upd)) =
           (case status_change p alert status tx None of
              Inr r \<Rightarrow> Next (status_updated r (alert, status, tx, upd))
            | Inl e' \<Rightarrow> Raise e'))) \<and>
   (getattr_is_suppressed alert = Inr False \<longrightarrow>
      shapes_of (fst (take_action_step env cfg p (alert, action, tx, timeout, upd))) = [WithConfig] \<and>
      (take_action p alert action tx timeout cfg = Inl e \<and> isinstance e TypeError \<and>
       generic_fault TakeAction e \<longrightarrow>
         take_action_step env cfg p (alert, action, tx, timeout, upd) =
           (if raise_on_error env then
              ([Invoke (name p) TakeAction WithConfig], Raise (wrapped TakeAction p e))
            else (logged TakeAction p e, Next (alert, action, tx, timeout, upd))))) \<and>
   shapes_of (fst (take_note_step env cfg p (alert, tx, upd))) = [WithConfig] \<and>
   (take_note p alert tx cfg = Inl e \<and> isinstance e TypeError \<and> generic_fault TakeNote e \<longrightarrow>
      take_note_step env cfg p (alert, tx, upd) =
        (if raise_on_error env then
           ([Invoke (name p) TakeNote WithConfig], Raise (wrapped TakeNote p e))
         else (logged TakeNote p e, Next (alert, tx, upd)))) \<and>
   (truthy d \<longrightarrow>
      shapes_of (fst (delete_step env cfg a0 p d)) = [WithConfig] \<and>
      (delete p (PAlert a0) cfg = Inl e \<and> isinstance e TypeError \<and> generic_fault Delete e \<longrightarrow>
         delete_step env cfg a0 p d =
           (if raise_on_error env then
              ([Invoke (name p) Delete WithConfig], Raise (wrapped Delete p e))
            else (logged Delete p e, Next d))))"
proof (intro conjI impI; (elim conjE)?)
  show "getattr_is_suppressed alert = Inr False \<Longrightarrow>
      shapes_of (fst (pre_receive_step env cfg p (alert, skip))) =
        attempted (pre_receive p alert (Some cfg))"
    by (rule pre_receive_step_shapes(1))
  show "getattr_is_suppressed alert = Inr False \<Longrightarrow>
      pre_receive p alert (Some cfg) = Inl e \<Longrightarrow> isinstance e TypeError \<Longrightarrow>
      snd (pre_receive_step env cfg p (alert, skip)) =
        (case pre_receive p alert None of
           Inr r \<Rightarrow> snd (pre_received p [] r skip)
         | Inl e' \<Rightarrow> Raise e')"
    by (rule pre_receive_step_shapes(2))
  show "shapes_of (fst (post_receive_step env cfg False p (alert, upd))) =
      attempted (post_receive p alert (Some cfg))"
    by (rule post_receive_step_shapes(1))
  show "post_receive p alert (Some cfg) = Inl e \<Longrightarrow> isinstance e TypeError \<Longrightarrow>
      snd (post_receive_step env cfg False p (alert, upd)) =
        (case post_receive p alert None of
           Inr r \<Rightarrow> Next (post_updated r (alert, upd))
         | Inl e' \<Rightarrow> Raise e')"
    by (rule post_receive_step_shapes(2))
  show "getattr_is_suppressed alert = Inr False \<Longrightarrow>
      shapes_of (fst (status_change_step env cfg p (alert, status, tx, upd))) =
        attempted (status_change p alert status tx (Some cfg))"
    by (rule status_change_step_shapes(1))
  show "getattr_is_suppressed alert = Inr False \<Longrightarrow>
      status_change p alert status tx (Some cfg) = Inl e \<Longrightarrow> isinstance e TypeError \<Longrightarrow>
      snd (status_change_step env cfg p (alert, status, tx, upd)) =
        (case status_change p alert status tx None of
           Inr r \<Rightarrow> Next (status_updated r (alert, status, tx, upd))
         | Inl e' \<Rightarrow> Raise e')"
    by (rule status_change_step_shapes(2))
  show "getattr_is_suppressed alert = Inr False \<Longrightarrow>
      shapes_of (fst (take_action_step env cfg p (alert, action, tx, timeout, upd))) = [WithConfig]"
    by (rule take_action_step_shapes)
  show "getattr_is_suppressed alert = Inr False \<Longrightarrow>
      take_action p alert action tx timeout cfg = Inl e \<Longrightarrow> isinstance e TypeError \<Longrightarrow>
      generic_fault TakeAction e \<Longrightarrow>
      take_action_step env cfg p (alert, action, tx, timeout, upd) =
        (if raise_on_error env then
           ([Invoke (name p) TakeAction WithConfig], Raise (wrapped TakeAction p e))
         else (logged TakeAction p e, Next (alert, action, tx, timeout, upd)))"
    by (rule take_action_step_fault)
  show "shapes_of (fst (take_note_step env cfg p (alert, tx, upd))) = [WithConfig]"
    by (rule take_note_step_shapes)
  show "take_note p alert tx cfg = Inl e \<Longrightarrow> isinstance e TypeError \<Longrightarrow>
      generic_fault TakeNote e \<Longrightarrow>
      take_note_step env cfg p (alert, tx, upd) =
        (if raise_on_error env then
           ([Invoke (name p) TakeNote WithConfig], Raise (wrapped TakeNote p e))
         else (logged TakeNote p e, Next (alert, tx, upd)))"
    by (rule take_note_step_fault)
  show "truthy d \<Longrightarrow> shapes_of (fst (delete_step env cfg a0 p d)) = [WithConfig]"
    by (rule delete_step_shapes)
  show "truthy d \<Longrightarrow> delete p (PAlert a0) cfg = Inl e \<Longrightarrow> isinstance e TypeError \<Longrightarrow>
      generic_fault Delete e \<Longrightarrow>
      delete_step env cfg a0 p d =
        (if raise_on_error env then
           ([Invoke (name p) Delete WithConfig], Raise (wrapped Delete p e))
         else (logged Delete p e, Next d))"
    by (rule delete_step_fault)
qed

lemmas shape_defs = legacy_plugin_def type_error_def plugin_base_def example_env_def
  example_alert_def attempted_def isinstance_def isinstance_any_def generic_fault_def
  pre_received_def post_updated_def status_updated_def

theorem call_shapes_witness:
  "shapes_of (fst (pre_receive_step (example_env [legacy_plugin] True) ''cfg'' legacy_plugin
       (PAlert example_alert, False))) = [WithConfig, WithoutConfig] \<and>
   snd (pre_receive_step (example_env [legacy_plugin] True) ''cfg'' legacy_plugin
       (PAlert example_alert, False)) = Next (PAlert example_alert, False) \<and>
   shapes_of (fst (post_receive_step (example_env [legacy_plugin] True) ''cfg'' False legacy_plugin
       (PAlert example_alert, False))) = [WithConfig, WithoutConfig] \<and>
   snd (post_receive_step (example_env [legacy_plugin] True) ''cfg'' False legacy_plugin
       (PAlert example_alert, False)) = Next (PAlert example_alert, True) \<and>
   shapes_of (fst (status_change_step (example_env [legacy_plugin] True) ''cfg'' legacy_plugin
       (PAlert example_alert, PStr ''closed'', PStr ''seen'', False))) =
     [WithConfig, WithoutConfig] \<and>
   snd (status_change_step (example_env [legacy_plugin] True) ''cfg'' legacy_plugin
       (PAlert example_alert, PStr ''closed'', PStr ''seen'', False)) =
     Next (PAlert example_alert, PStr ''closed'', PStr ''seen'', True) \<and>
   shapes_of (fst (take_action_step (example_env [legacy_plugin] True) ''cfg'' legacy_plugin
       (PAlert example_alert, PStr ''ack'', PStr ''seen'', PNone, False))) = [WithConfig] \<and>
   take_action_step (example_env [legacy_plugin] True) ''cfg'' legacy_plugin
       (PAlert example_alert, PStr ''ack'', PStr ''seen'', PNone, False) =
     ([Invoke ''legacy'' TakeAction WithConfig],
      Raise (wrapped TakeAction legacy_plugin type_error)) \<and>
   shapes_of (fst (take_note_step (example_env [legacy_plugin] True) ''cfg'' legacy_plugin
       (PAlert example_alert, PStr ''seen'', False))) = [WithConfig] \<and>
   take_note_step (example_env [legacy_plugin] True) ''cfg'' legacy_plugin
       (PAlert example_alert, PStr ''seen'', False) =
     ([Invoke ''legacy'' TakeNote WithConfig],
      Raise (wrapped TakeNote legacy_plugin type_error)) \<and>
   shapes_of (fst (delete_step (example_env [legacy_plugin] True) ''cfg'' example_alert
       legacy_plugin (PBool True))) = [WithConfig] \<and>
   delete_step (example_env [legacy_plugin] True) ''cfg'' example_alert legacy_plugin (PBool True) =
     ([Invoke ''legacy'' Delete WithConfig], Raise (wrapped Delete legacy_plugin type_error))"
  using call_shapes [where env = "example_env [legacy_plugin] True" and cfg = "''cfg''"
      and p = legacy_plugin and alert = "PAlert example_alert" and skip = False and upd = False
      and status = "PStr ''closed''" and tx = "PStr ''seen''" and action = "PStr ''ack''"
      and timeout = PNone and d = "PBool True" and ?a0.0 = example_alert and e = type_error]
  by (simp add: shape_defs)

text \<open>
  An action hook that does not accept \<open>config\<close>: the call is not repeated without it;
  the \<open>TypeError\<close> is wrapped and raised under the strict policy and logged under the
  lenient one.
\<close>

theorem call_shapes_counterexample:
  "take_action old_plugin (PAlert example_alert) (PStr ''ack'') (PStr ''seen'') PNone ''cfg'' =
     Inl arity_error \<and>
   isinstance arity_error TypeError \<and>
   process_action (example_env [old_plugin, touch_plugin] True) example_alert
       (PStr ''ack'') (PStr ''seen'') PNone =
     ([Invoke ''old'' TakeAction WithConfig],
      Inl (raise_exn ApiError (error_message ''action'' old_plugin arity_error))) \<and>
   process_action (example_env [old_plugin] False) example_alert
       (PStr ''ack'') (PStr ''seen'') PNone =
     ([Invoke ''old'' TakeAction WithConfig,
       LogError (error_message ''action'' old_plugin arity_error)],
      Inr (PAlert example_alert, PStr ''ack'', PStr ''seen'', PNone))"
  by (simp add: process_action_def take_action_step_def action_updated_def old_plugin_def
      arity_error_def plugin_base_def touch_plugin_def example_env_def example_alert_def
      isinstance_def isinstance_any_def)

end
